theory Spec2Isabelle
  imports Main "HOL-Library.Sublist"
begin

section \<open>JavaScript strings\<close>

text \<open>
  A JavaScript string is a sequence of UTF-16 code units. It is modelled as a
  \<^typ>\<open>string\<close> whose characters stand for the code units \<open>0..255\<close>; the
  timestamps, identifiers, keys and messages of the pipeline are ASCII.
\<close>

definition code_unit :: "char \<Rightarrow> nat" where
  "code_unit c = of_char c"

text \<open>The relational operator \<open>a < b\<close> on two strings: code unit by code unit.\<close>

fun str_less :: "string \<Rightarrow> string \<Rightarrow> bool" where
  "str_less [] [] = False"
| "str_less [] (y # ys) = True"
| "str_less (x # xs) [] = False"
| "str_less (x # xs) (y # ys) =
     (if code_unit x < code_unit y then True
      else if code_unit y < code_unit x then False
      else str_less xs ys)"

text \<open>\<open>String.prototype.startsWith\<close>, \<open>endsWith\<close> and \<open>str_includes\<close>.\<close>

fun startsWith :: "string \<Rightarrow> string \<Rightarrow> bool" where
  "startsWith s [] = True"
| "startsWith [] (p # ps) = False"
| "startsWith (c # cs) (p # ps) = (c = p \<and> startsWith cs ps)"

definition endsWith :: "string \<Rightarrow> string \<Rightarrow> bool" where
  "endsWith s p = startsWith (rev s) (rev p)"

fun str_includes :: "string \<Rightarrow> string \<Rightarrow> bool" where
  "str_includes [] p = (p = [])"
| "str_includes (c # cs) p = (startsWith (c # cs) p \<or> str_includes cs p)"

text \<open>\<open>s.substring(1)\<close>: everything after the first code unit.\<close>

definition substring1 :: "string \<Rightarrow> string" where
  "substring1 s = drop 1 s"

text \<open>
  White space and line terminators removed by \<open>String.prototype.trim\<close>, in the
  code unit range of the model: TAB, LF, VT, FF, CR, SPACE and NBSP.
\<close>

definition is_white_space :: "char \<Rightarrow> bool" where
  "is_white_space c = (code_unit c \<in> {9, 10, 11, 12, 13, 32, 160})"

definition trim :: "string \<Rightarrow> string" where
  "trim s = rev (dropWhile is_white_space (rev (dropWhile is_white_space s)))"

text \<open>
  \<open>String.prototype.toLowerCase\<close> on the code units of the model: the letters
  \<open>A-Z\<close> and the upper-case letters of the Latin-1 supplement.
\<close>

definition upper_chars :: string where
  "upper_chars = ''ABCDEFGHIJKLMNOPQRSTUVWXYZ'' @
     [CHR 0xC0, CHR 0xC1, CHR 0xC2, CHR 0xC3, CHR 0xC4, CHR 0xC5, CHR 0xC6, CHR 0xC7,
      CHR 0xC8, CHR 0xC9, CHR 0xCA, CHR 0xCB, CHR 0xCC, CHR 0xCD, CHR 0xCE, CHR 0xCF,
      CHR 0xD0, CHR 0xD1, CHR 0xD2, CHR 0xD3, CHR 0xD4, CHR 0xD5, CHR 0xD6,
      CHR 0xD8, CHR 0xD9, CHR 0xDA, CHR 0xDB, CHR 0xDC, CHR 0xDD, CHR 0xDE]"

definition lower_chars :: string where
  "lower_chars = ''abcdefghijklmnopqrstuvwxyz'' @
     [CHR 0xE0, CHR 0xE1, CHR 0xE2, CHR 0xE3, CHR 0xE4, CHR 0xE5, CHR 0xE6, CHR 0xE7,
      CHR 0xE8, CHR 0xE9, CHR 0xEA, CHR 0xEB, CHR 0xEC, CHR 0xED, CHR 0xEE, CHR 0xEF,
      CHR 0xF0, CHR 0xF1, CHR 0xF2, CHR 0xF3, CHR 0xF4, CHR 0xF5, CHR 0xF6,
      CHR 0xF8, CHR 0xF9, CHR 0xFA, CHR 0xFB, CHR 0xFC, CHR 0xFD, CHR 0xFE]"

definition lower_char :: "char \<Rightarrow> char" where
  "lower_char c = (case map_of (zip upper_chars lower_chars) c of None \<Rightarrow> c | Some l \<Rightarrow> l)"

definition toLowerCase :: "string \<Rightarrow> string" where
  "toLowerCase s = map lower_char s"

text \<open>The decimal rendering of an array index inside a template literal.\<close>

definition digit_char :: "nat \<Rightarrow> char" where
  "digit_char d = ''0123456789'' ! d"

fun string_of_nat :: "nat \<Rightarrow> string" where
  "string_of_nat n =
     (if n < 10 then [digit_char n]
      else string_of_nat (n div 10) @ [digit_char (n mod 10)])"

declare string_of_nat.simps [simp del]

text \<open>
  \<open>!s\<close> for an optional string: \<open>undefined\<close> and the empty string are falsy.
\<close>

definition falsy :: "string option \<Rightarrow> bool" where
  "falsy s = (case s of None \<Rightarrow> True | Some v \<Rightarrow> v = [])"


section \<open>Data model of the vector-store synchronisation\<close>

datatype SourceType = Policy | Context | ManualAnswer | KnowledgeBaseDocument

fun sourceType_string :: "SourceType \<Rightarrow> string" where
  "sourceType_string Policy = ''policy''"
| "sourceType_string Context = ''context''"
| "sourceType_string ManualAnswer = ''manual_answer''"
| "sourceType_string KnowledgeBaseDocument = ''knowledge_base_document''"

text \<open>
  Modelled from the spec: the interface \<open>ExistingEmbedding\<close> is declared in
  \<open>core/find-existing-embeddings\<close>, which is not among the sources. An existing
  embedding record has an identifier and a recorded \<open>updatedAt\<close> string;
  \<open>needsUpdate\<close> reads the field under the guard \<open>!e.updatedAt\<close>, so a
  record without the field is \<open>None\<close>.
\<close>

record ExistingEmbedding =
  emb_id :: string
  emb_updatedAt :: "string option"

record ChunkItem =
  item_id :: string
  item_text :: string
  metadata :: "string \<rightharpoonup> string"


section \<open>sync-utils: the staleness check\<close>

definition needsUpdate :: "ExistingEmbedding list \<Rightarrow> string \<Rightarrow> bool" where
  "needsUpdate existingEmbeddings updatedAt =
     (length existingEmbeddings = 0 \<or>
      list_ex (\<lambda>e. falsy (emb_updatedAt e) \<or>
                   (case emb_updatedAt e of
                      None \<Rightarrow> False
                    | Some u \<Rightarrow> str_less u updatedAt))
              existingEmbeddings)"

text \<open>
  The staleness check as the specification words it: no embeddings at all, or
  some embedding whose recorded \<open>updatedAt\<close> is lexicographically less than
  the source's.
\<close>

definition needsUpdate_spec :: "ExistingEmbedding list \<Rightarrow> string \<Rightarrow> bool" where
  "needsUpdate_spec existingEmbeddings updatedAt =
     (existingEmbeddings = [] \<or>
      list_ex (\<lambda>e. case emb_updatedAt e of
                     None \<Rightarrow> False
                   | Some u \<Rightarrow> (u, updatedAt) \<in> lexord {(a, b). code_unit a < code_unit b})
              existingEmbeddings)"


section \<open>Effects: a world, thrown errors and sequencing\<close>

text \<open>
  What a JavaScript \<open>throw\<close> carries: an \<open>Error\<close> with its message, or any
  other value. \<open>error instanceof Error ? error.message : 'Unknown error'\<close> is
  \<open>error_message\<close>.
\<close>

datatype thrown = JsError string | NonError

definition error_message :: "thrown \<Rightarrow> string" where
  "error_message e = (case e of JsError m \<Rightarrow> m | NonError \<Rightarrow> ''Unknown error'')"

text \<open>
  An asynchronous function is an action on a state: it either returns a value
  (\<open>Inr\<close>) or throws (\<open>Inl\<close>), and the effects made before a throw stay.
\<close>

type_synonym ('s, 'a) action = "'s \<Rightarrow> (thrown + 'a) \<times> 's"

definition ret :: "'a \<Rightarrow> ('s, 'a) action" where
  "ret x = (\<lambda>s. (Inr x, s))"

definition throw :: "thrown \<Rightarrow> ('s, 'a) action" where
  "throw e = (\<lambda>s. (Inl e, s))"

definition seq :: "('s, 'a) action \<Rightarrow> ('a \<Rightarrow> ('s, 'b) action) \<Rightarrow> ('s, 'b) action" where
  "seq m f = (\<lambda>s. case m s of (Inl e, s') \<Rightarrow> (Inl e, s') | (Inr x, s') \<Rightarrow> f x s')"

definition try_catch :: "('s, 'a) action \<Rightarrow> (thrown \<Rightarrow> ('s, 'a) action) \<Rightarrow> ('s, 'a) action" where
  "try_catch m h = (\<lambda>s. case m s of (Inl e, s') \<Rightarrow> h e s' | (Inr x, s') \<Rightarrow> (Inr x, s'))"

definition lift :: "thrown + 'a \<Rightarrow> ('s, 'a) action" where
  "lift r = (case r of Inl e \<Rightarrow> throw e | Inr x \<Rightarrow> ret x)"

datatype ProcessingStatus = Pending | Processing | Completed | Failed

text \<open>
  A row of the \<open>knowledgeBaseDocument\<close> table; the table is keyed by the
  document id. \<open>doc_updatedAt\<close> holds \<open>document.updatedAt.toISOString()\<close>,
  \<open>processedAt\<close> a clock reading.
\<close>

record document =
  doc_organizationId :: string
  doc_name :: string
  s3Key :: string
  fileType :: string
  doc_updatedAt :: string
  processingStatus :: ProcessingStatus
  processedAt :: "nat option"

text \<open>The calls a run makes to object storage and to the vector index, in order.\<close>

datatype call =
    S3GetObject string string
  | FindEmbeddings string SourceType string
  | VectorIndexDelete "string list"
  | BatchUpsert "ChunkItem list"

datatype log_level = Info | Warn | Err

record world =
  documents :: "string \<rightharpoonup> document"
  calls :: "call list"
  logs :: "(log_level \<times> string \<times> (string \<times> string) list) list"

record s3_response =
  Body :: "string option"
  ContentType :: "string option"

text \<open>
  The collaborators of the pipeline that are not among the sources, each taken
  as a parameter: the process environment, the S3 client's \<open>send\<close>,
  \<open>extractContentFromFile\<close>, \<open>findEmbeddingsForSource\<close>, the module-level
  \<open>vectorIndex\<close> (\<open>False\<close> when it is \<open>null\<close>) with its \<open>delete\<close>,
  \<open>batchUpsertEmbeddings\<close>, \<open>chunkText\<close> and the clock behind
  \<open>new Date()\<close>. A result \<open>Inl e\<close> (or \<open>Some e\<close> for a call without a
  value) means that the call throws \<open>e\<close>.
\<close>

record services =
  APP_AWS_KNOWLEDGE_BASE_BUCKET :: "string option"
  APP_AWS_ACCESS_KEY_ID :: "string option"
  APP_AWS_SECRET_ACCESS_KEY :: "string option"
  s3_send :: "string \<Rightarrow> string \<Rightarrow> thrown + s3_response"
  extractContentFromFile :: "string \<Rightarrow> string \<Rightarrow> thrown + string"
  findEmbeddingsForSource :: "string \<Rightarrow> SourceType \<Rightarrow> string \<Rightarrow> thrown + ExistingEmbedding list"
  vectorIndex :: bool
  vectorIndex_delete :: "string list \<Rightarrow> thrown option"
  batchUpsertEmbeddings :: "ChunkItem list \<Rightarrow> thrown option"
  chunkText :: "string \<Rightarrow> nat \<Rightarrow> nat \<Rightarrow> thrown + string list"
  now :: nat

definition logger :: "log_level \<Rightarrow> string \<Rightarrow> (string \<times> string) list \<Rightarrow> (world, unit) action" where
  "logger level message context = (\<lambda>w. (Inr (), w\<lparr>logs := logs w @ [(level, message, context)]\<rparr>))"

definition record_call :: "call \<Rightarrow> (world, unit) action" where
  "record_call c = (\<lambda>w. (Inr (), w\<lparr>calls := calls w @ [c]\<rparr>))"

definition call_s3_send :: "services \<Rightarrow> string \<Rightarrow> string \<Rightarrow> (world, s3_response) action" where
  "call_s3_send S bucket key =
     seq (record_call (S3GetObject bucket key)) (\<lambda>_. lift (s3_send S bucket key))"

definition call_findEmbeddingsForSource ::
  "services \<Rightarrow> string \<Rightarrow> SourceType \<Rightarrow> string \<Rightarrow> (world, ExistingEmbedding list) action" where
  "call_findEmbeddingsForSource S sourceId sourceType organizationId =
     seq (record_call (FindEmbeddings sourceId sourceType organizationId))
       (\<lambda>_. lift (findEmbeddingsForSource S sourceId sourceType organizationId))"

definition call_vectorIndex_delete :: "services \<Rightarrow> string list \<Rightarrow> (world, unit) action" where
  "call_vectorIndex_delete S ids =
     seq (record_call (VectorIndexDelete ids))
       (\<lambda>_. case vectorIndex_delete S ids of None \<Rightarrow> ret () | Some e \<Rightarrow> throw e)"

definition call_batchUpsertEmbeddings :: "services \<Rightarrow> ChunkItem list \<Rightarrow> (world, unit) action" where
  "call_batchUpsertEmbeddings S items =
     seq (record_call (BatchUpsert items))
       (\<lambda>_. case batchUpsertEmbeddings S items of None \<Rightarrow> ret () | Some e \<Rightarrow> throw e)"

text \<open>
  \<open>db.knowledgeBaseDocument.findUnique({where: {id, organizationId}})\<close> and
  \<open>db.knowledgeBaseDocument.update({where: {id}, data})\<close>. The record store
  answers every call; the update of a row that does not exist throws. The
  document that \<open>findUnique\<close> returns is paired with its id.
\<close>

definition db_findUnique :: "string \<Rightarrow> string \<Rightarrow> (world, (string \<times> document) option) action" where
  "db_findUnique i organizationId =
     (\<lambda>w. (Inr (case documents w i of
                   None \<Rightarrow> None
                 | Some d \<Rightarrow> if doc_organizationId d = organizationId then Some (i, d) else None),
            w))"

definition db_update :: "string \<Rightarrow> (document \<Rightarrow> document) \<Rightarrow> (world, unit) action" where
  "db_update i data =
     (\<lambda>w. case documents w i of
             None \<Rightarrow> (Inl (JsError ''Record to update not found.''), w)
           | Some d \<Rightarrow> (Inr (), w\<lparr>documents := (documents w)(i \<mapsto> data d)\<rparr>))"


section \<open>sync-utils: deleting, chunking, upserting\<close>

text \<open>
  An object used as a log context is the list of its entries, in the order of
  their enumeration and with distinct keys. \<open>{...context, key: value}\<close>: an
  entry that the context already has under the key is overwritten where it
  stands, a new entry comes last.
\<close>

fun spread_with :: "(string \<times> string) list \<Rightarrow> string \<Rightarrow> string \<Rightarrow> (string \<times> string) list" where
  "spread_with [] key v = [(key, v)]"
| "spread_with ((k, old) # entries) key v =
     (if k = key then (key, v) # entries else (k, old) # spread_with entries key v)"

definition deleteOldEmbeddings ::
  "services \<Rightarrow> ExistingEmbedding list \<Rightarrow> (string \<times> string) list \<Rightarrow> (world, unit) action" where
  "deleteOldEmbeddings S embeddings logContext =
     (if length embeddings = 0 \<or> \<not> vectorIndex S then ret ()
      else
        let idsToDelete = map emb_id embeddings
        in try_catch (call_vectorIndex_delete S idsToDelete)
             (\<lambda>error. logger Warn ''Failed to delete old embeddings''
                         (spread_with logContext ''error'' (error_message error))))"

text \<open>\<open>item.text && item.text.trim().length > 0\<close>.\<close>

definition has_text :: "ChunkItem \<Rightarrow> bool" where
  "has_text item = (item_text item \<noteq> [] \<and> length (trim (item_text item)) > 0)"

definition createChunkItems ::
  "(string \<Rightarrow> nat \<Rightarrow> nat \<Rightarrow> thrown + string list) \<Rightarrow> string \<Rightarrow> string \<Rightarrow> SourceType \<Rightarrow>
   string \<Rightarrow> string \<Rightarrow> string \<Rightarrow> (string \<rightharpoonup> string) \<Rightarrow> nat \<Rightarrow> nat \<Rightarrow> thrown + ChunkItem list" where
  "createChunkItems chunkText' text sourceId sourceType organizationId updatedAt idPrefix
     extraMetadata chunkSize overlap =
     (case chunkText' text chunkSize overlap of
        Inl e \<Rightarrow> Inl e
      | Inr chunks \<Rightarrow>
          Inr (filter has_text
                 (map (\<lambda>(chunkIndex, chunk).
                         \<lparr>item_id = idPrefix @ ''_'' @ sourceId @ ''_chunk'' @ string_of_nat chunkIndex,
                          item_text = chunk,
                          metadata =
                            [''organizationId'' \<mapsto> organizationId,
                             ''sourceType'' \<mapsto> sourceType_string sourceType,
                             ''sourceId'' \<mapsto> sourceId,
                             ''content'' \<mapsto> chunk,
                             ''updatedAt'' \<mapsto> updatedAt] ++ extraMetadata\<rparr>)
                    (enumerate 0 chunks))))"

definition upsertChunks :: "services \<Rightarrow> ChunkItem list \<Rightarrow> (world, unit) action" where
  "upsertChunks S chunkItems =
     (if length chunkItems > 0 then call_batchUpsertEmbeddings S chunkItems else ret ())"

text \<open>
  Modelled from the spec: \<open>chunkText\<close> (\<open>utils/chunk-text\<close>) is not among the
  sources. Section 4.2 describes it: windows of \<open>chunkSize\<close> units, each
  overlapping the previous one by \<open>overlap\<close> units, the last one possibly
  shorter; a text no longer than \<open>chunkSize\<close> is a single chunk;
  \<open>overlap \<ge> chunkSize\<close> fails with \<open>InvalidChunkConfig\<close>.
\<close>

function chunk_windows :: "string \<Rightarrow> nat \<Rightarrow> nat \<Rightarrow> string list" where
  "chunk_windows text chunkSize overlap =
     (if overlap < chunkSize \<and> chunkSize < length text
      then take chunkSize text # chunk_windows (drop (chunkSize - overlap) text) chunkSize overlap
      else [text])"
  by pat_completeness auto
termination
  by (relation "measure (\<lambda>(text, chunkSize, overlap). length text)") auto

declare chunk_windows.simps [simp del]

definition chunkText_spec :: "string \<Rightarrow> nat \<Rightarrow> nat \<Rightarrow> thrown + string list" where
  "chunkText_spec text chunkSize overlap =
     (if overlap \<ge> chunkSize then Inl (JsError ''InvalidChunkConfig'')
      else Inr (chunk_windows text chunkSize overlap))"


section \<open>The task \<open>process-knowledge-base-document\<close>\<close>

record payload =
  documentId :: string
  organizationId :: string

record task_result =
  success :: bool
  result_documentId :: string
  chunkCount :: "nat option"
  error :: "string option"

definition createS3Client :: "services \<Rightarrow> (world, unit) action" where
  "createS3Client S =
     (if falsy (APP_AWS_ACCESS_KEY_ID S) \<or> falsy (APP_AWS_SECRET_ACCESS_KEY S)
      then throw (JsError ''AWS S3 credentials are missing. Please set APP_AWS_ACCESS_KEY_ID and APP_AWS_SECRET_ACCESS_KEY environment variables in Trigger.dev.'')
      else ret ())"

definition extractContentFromKnowledgeBaseDocument ::
  "services \<Rightarrow> string \<Rightarrow> string \<Rightarrow> (world, string) action" where
  "extractContentFromKnowledgeBaseDocument S s3Key' fileType' =
     (case APP_AWS_KNOWLEDGE_BASE_BUCKET S of
        None \<Rightarrow> throw (JsError ''Knowledge base bucket is not configured. Please set APP_AWS_KNOWLEDGE_BASE_BUCKET environment variable in Trigger.dev.'')
      | Some knowledgeBaseBucket \<Rightarrow>
          if knowledgeBaseBucket = []
          then throw (JsError ''Knowledge base bucket is not configured. Please set APP_AWS_KNOWLEDGE_BASE_BUCKET environment variable in Trigger.dev.'')
          else
            seq (createS3Client S) (\<lambda>_.
            seq (call_s3_send S knowledgeBaseBucket s3Key') (\<lambda>response.
            case Body response of
              None \<Rightarrow> throw (JsError ''Failed to retrieve file from S3'')
            | Some base64Data \<Rightarrow>
                let detectedFileType =
                      (case ContentType response of
                         None \<Rightarrow> if fileType' = [] then ''application/octet-stream'' else fileType'
                       | Some t \<Rightarrow>
                           if t \<noteq> [] then t
                           else if fileType' = [] then ''application/octet-stream'' else fileType')
                in lift (extractContentFromFile S base64Data detectedFileType))))"

text \<open>The chunk items of a document: the \<open>map\<close> and \<open>filter\<close> of the task.\<close>

definition kb_chunk_items :: "payload \<Rightarrow> string \<Rightarrow> document \<Rightarrow> string list \<Rightarrow> ChunkItem list" where
  "kb_chunk_items p document_id document chunks =
     (let updatedAt = doc_updatedAt document
      in filter has_text
           (map (\<lambda>(chunkIndex, chunk).
                   \<lparr>item_id = ''knowledge_base_document_'' @ document_id @ ''_chunk'' @ string_of_nat chunkIndex,
                    item_text = chunk,
                    metadata =
                      [''organizationId'' \<mapsto> organizationId p,
                       ''sourceType'' \<mapsto> ''knowledge_base_document'',
                       ''sourceId'' \<mapsto> document_id,
                       ''content'' \<mapsto> chunk,
                       ''documentName'' \<mapsto> doc_name document,
                       ''updatedAt'' \<mapsto> updatedAt]\<rparr>)
              (enumerate 0 chunks)))"

definition mark_failed :: "services \<Rightarrow> document \<Rightarrow> document" where
  "mark_failed S d = d\<lparr>processingStatus := Failed, processedAt := Some (now S)\<rparr>"

definition mark_completed :: "services \<Rightarrow> document \<Rightarrow> document" where
  "mark_completed S d = d\<lparr>processingStatus := Completed, processedAt := Some (now S)\<rparr>"

text \<open>The deletion of the existing embeddings inside the task body.\<close>

definition delete_existing ::
  "services \<Rightarrow> string \<Rightarrow> ExistingEmbedding list \<Rightarrow> (world, unit) action" where
  "delete_existing S document_id existingEmbeddings =
     (if length existingEmbeddings > 0 then
        if vectorIndex S then
          let idsToDelete = map emb_id existingEmbeddings
          in try_catch
               (seq (call_vectorIndex_delete S idsToDelete) (\<lambda>_.
                logger Info ''Deleted existing embeddings''
                  [(''documentId'', document_id),
                   (''deletedCount'', string_of_nat (length idsToDelete))]))
               (\<lambda>error. logger Warn ''Failed to delete existing embeddings''
                           [(''documentId'', document_id), (''error'', error_message error)])
        else ret ()
      else ret ())"

text \<open>From the chunking to the final status write.\<close>

definition embed_content ::
  "services \<Rightarrow> payload \<Rightarrow> string \<Rightarrow> document \<Rightarrow> string \<Rightarrow> (world, task_result) action" where
  "embed_content S p document_id document content =
     seq (lift (chunkText S content 500 50)) (\<lambda>chunks.
     if length chunks = 0 then
       seq (logger Warn ''No chunks created from content'' [(''documentId'', document_id)]) (\<lambda>_.
       seq (db_update document_id (mark_failed S)) (\<lambda>_.
       ret \<lparr>success = False, result_documentId = document_id, chunkCount = None,
            error = Some ''No chunks created from content''\<rparr>))
     else
       seq (logger Info ''Created chunks for embedding''
              [(''documentId'', document_id), (''chunkCount'', string_of_nat (length chunks))]) (\<lambda>_.
       let chunkItems = kb_chunk_items p document_id document chunks
       in seq (if length chunkItems > 0 then
                 seq (call_batchUpsertEmbeddings S chunkItems) (\<lambda>_.
                 logger Info ''Successfully created embeddings''
                   [(''documentId'', document_id),
                    (''embeddingCount'', string_of_nat (length chunkItems))])
               else ret ()) (\<lambda>_.
          seq (db_update document_id (mark_completed S)) (\<lambda>_.
          seq (logger Info ''Successfully processed Knowledge Base document''
                 [(''documentId'', document_id), (''organizationId'', organizationId p),
                  (''chunkCount'', string_of_nat (length chunkItems))]) (\<lambda>_.
          ret \<lparr>success = True, result_documentId = document_id,
               chunkCount = Some (length chunkItems), error = None\<rparr>)))))"

text \<open>The body of the \<open>try\<close> block.\<close>

definition run_try :: "services \<Rightarrow> payload \<Rightarrow> (world, task_result) action" where
  "run_try S p =
     seq (db_findUnique (documentId p) (organizationId p)) (\<lambda>found.
     case found of
       None \<Rightarrow>
         seq (logger Err ''Document not found''
                [(''documentId'', documentId p), (''organizationId'', organizationId p)]) (\<lambda>_.
         ret \<lparr>success = False, result_documentId = documentId p, chunkCount = None,
              error = Some ''Document not found''\<rparr>)
     | Some (document_id, document) \<Rightarrow>
         seq (db_update document_id (\<lambda>d. d\<lparr>processingStatus := Processing\<rparr>)) (\<lambda>_.
         seq (logger Info ''Extracting content from file''
                [(''documentId'', document_id), (''s3Key'', s3Key document),
                 (''fileType'', fileType document)]) (\<lambda>_.
         seq (extractContentFromKnowledgeBaseDocument S (s3Key document) (fileType document))
           (\<lambda>content.
         if content = [] \<or> length (trim content) = 0 then
           seq (logger Warn ''No content extracted from document''
                  [(''documentId'', document_id)]) (\<lambda>_.
           seq (db_update document_id (mark_failed S)) (\<lambda>_.
           ret \<lparr>success = False, result_documentId = document_id, chunkCount = None,
                error = Some ''No content extracted from document''\<rparr>))
         else
           seq (logger Info ''Content extracted successfully''
                  [(''documentId'', document_id),
                   (''contentLength'', string_of_nat (length content))]) (\<lambda>_.
           seq (call_findEmbeddingsForSource S document_id KnowledgeBaseDocument
                  (organizationId p)) (\<lambda>existingEmbeddings.
           seq (delete_existing S document_id existingEmbeddings) (\<lambda>_.
           embed_content S p document_id document content)))))))"

text \<open>
  The \<open>catch\<close> block. (The \<open>errorStack\<close> field of the log context is left
  out.)
\<close>

definition on_error :: "services \<Rightarrow> payload \<Rightarrow> thrown \<Rightarrow> (world, task_result) action" where
  "on_error S p error' =
     seq (logger Err ''Error processing Knowledge Base document''
            [(''documentId'', documentId p), (''error'', error_message error')]) (\<lambda>_.
     seq (try_catch (db_update (documentId p) (mark_failed S))
            (\<lambda>updateError.
               logger Err ''Failed to update document status to failed''
                 [(''documentId'', documentId p), (''error'', error_message updateError)]))
       (\<lambda>_.
     ret \<lparr>success = False, result_documentId = documentId p, chunkCount = None,
          error = Some (error_message error')\<rparr>))"

text \<open>
  \<open>run\<close>: the \<open>try\<close> block and its \<open>catch\<close>. The value \<open>Inr r\<close> is what the
  task returns to the task runner, \<open>Inl e\<close> an error that leaves the run.
\<close>

definition run :: "services \<Rightarrow> payload \<Rightarrow> (world, task_result) action" where
  "run S p =
     seq (logger Info ''Processing Knowledge Base document''
            [(''documentId'', documentId p), (''organizationId'', organizationId p)]) (\<lambda>_.
     try_catch (run_try S p) (on_error S p))"

text \<open>The calls a run adds to the record of calls.\<close>

definition new_calls :: "services \<Rightarrow> payload \<Rightarrow> world \<Rightarrow> call list" where
  "new_calls S p w = drop (length (calls w)) (calls (snd (run S p w)))"

definition is_index_mutation :: "call \<Rightarrow> bool" where
  "is_index_mutation c = (case c of VectorIndexDelete _ \<Rightarrow> True | BatchUpsert _ \<Rightarrow> True | _ \<Rightarrow> False)"

definition is_index_call :: "call \<Rightarrow> bool" where
  "is_index_call c = (case c of S3GetObject _ _ \<Rightarrow> False | _ \<Rightarrow> True)"





text \<open>
  What a run does, read off the services: the object-storage call of the
  extraction, its result, the delete call and the upsert call.
\<close>

definition s3_calls :: "services \<Rightarrow> string \<Rightarrow> call list" where
  "s3_calls S key =
     (case APP_AWS_KNOWLEDGE_BASE_BUCKET S of
        None \<Rightarrow> []
      | Some b \<Rightarrow>
          if b = [] \<or> falsy (APP_AWS_ACCESS_KEY_ID S) \<or> falsy (APP_AWS_SECRET_ACCESS_KEY S)
          then [] else [S3GetObject b key])"

definition extracted :: "services \<Rightarrow> document \<Rightarrow> thrown + string" where
  "extracted S d =
     fst (extractContentFromKnowledgeBaseDocument S (s3Key d) (fileType d)
            \<lparr>documents = Map.empty, calls = [], logs = []\<rparr>)"

definition delete_calls :: "services \<Rightarrow> ExistingEmbedding list \<Rightarrow> call list" where
  "delete_calls S es =
     (if es \<noteq> [] \<and> vectorIndex S then [VectorIndexDelete (map emb_id es)] else [])"

definition upsert_calls :: "services \<Rightarrow> payload \<Rightarrow> string \<Rightarrow> document \<Rightarrow> string \<Rightarrow> call list" where
  "upsert_calls S p document_id d content =
     (case chunkText S content 500 50 of
        Inl e \<Rightarrow> []
      | Inr chunks \<Rightarrow>
          if kb_chunk_items p document_id d chunks = [] then []
          else [BatchUpsert (kb_chunk_items p document_id d chunks)])"

definition blank :: "string \<Rightarrow> bool" where
  "blank s = (\<forall>c \<in> set s. is_white_space c)"

definition owned_document :: "world \<Rightarrow> payload \<Rightarrow> document option" where
  "owned_document w p =
     (case documents w (documentId p) of
        None \<Rightarrow> None
      | Some d \<Rightarrow> if doc_organizationId d = organizationId p then Some d else None)"


definition embed_outcome ::
  "services \<Rightarrow> payload \<Rightarrow> string \<Rightarrow> document \<Rightarrow> string \<Rightarrow> thrown + task_result" where
  "embed_outcome S p document_id d content =
     (case chunkText S content 500 50 of
        Inl e \<Rightarrow> Inl e
      | Inr chunks \<Rightarrow>
          if chunks = [] then
            Inr \<lparr>success = False, result_documentId = document_id, chunkCount = None,
                 error = Some ''No chunks created from content''\<rparr>
          else
            let items = kb_chunk_items p document_id d chunks
            in case (if items = [] then None else batchUpsertEmbeddings S items) of
                 Some e \<Rightarrow> Inl e
               | None \<Rightarrow>
                   Inr \<lparr>success = True, result_documentId = document_id,
                        chunkCount = Some (length items), error = None\<rparr>)"

definition try_outcome :: "services \<Rightarrow> payload \<Rightarrow> world \<Rightarrow> thrown + task_result" where
  "try_outcome S p w =
     (case owned_document w p of
        None \<Rightarrow>
          Inr \<lparr>success = False, result_documentId = documentId p, chunkCount = None,
               error = Some ''Document not found''\<rparr>
      | Some d \<Rightarrow>
          (case extracted S d of
             Inl e \<Rightarrow> Inl e
           | Inr content \<Rightarrow>
               if blank content then
                 Inr \<lparr>success = False, result_documentId = documentId p, chunkCount = None,
                      error = Some ''No content extracted from document''\<rparr>
               else
                 (case findEmbeddingsForSource S (documentId p) KnowledgeBaseDocument
                         (organizationId p) of
                    Inl e \<Rightarrow> Inl e
                  | Inr es \<Rightarrow> embed_outcome S p (documentId p) d content)))"

definition succeeded :: "thrown + task_result \<Rightarrow> bool" where
  "succeeded r = (case r of Inl e \<Rightarrow> False | Inr x \<Rightarrow> success x)"




text \<open>The ids, and the metadata under one key, of the chunk items produced.\<close>

definition chunk_ids :: "thrown + ChunkItem list \<Rightarrow> string list" where
  "chunk_ids r = (case r of Inl e \<Rightarrow> [] | Inr items \<Rightarrow> map item_id items)"

definition chunk_metadata :: "thrown + ChunkItem list \<Rightarrow> string \<Rightarrow> string option list" where
  "chunk_metadata r key = (case r of Inl e \<Rightarrow> [] | Inr items \<Rightarrow> map (\<lambda>item. metadata item key) items)"


section \<open>A knowledge-base document and its services, for the examples\<close>

definition example_document :: document where
  "example_document =
     \<lparr>doc_organizationId = ''org-1'', doc_name = ''handbook.txt'',
      s3Key = ''org-1/handbook.txt'', fileType = ''text/plain'',
      doc_updatedAt = ''2024-02-01T00:00:00.000Z'',
      processingStatus = Pending, processedAt = None\<rparr>"

definition example_world :: world where
  "example_world = \<lparr>documents = [''doc-1'' \<mapsto> example_document], calls = [], logs = []\<rparr>"

definition example_payload :: payload where
  "example_payload = \<lparr>documentId = ''doc-1'', organizationId = ''org-1''\<rparr>"

definition example_existing :: "ExistingEmbedding list" where
  "example_existing =
     [\<lparr>emb_id = ''knowledge_base_document_doc-1_chunk0'',
       emb_updatedAt = Some ''2024-02-01T00:00:00.000Z''\<rparr>,
      \<lparr>emb_id = ''knowledge_base_document_doc-1_chunk1'',
       emb_updatedAt = Some ''2024-02-01T00:00:00.000Z''\<rparr>]"

definition example_services :: services where
  "example_services =
     \<lparr>APP_AWS_KNOWLEDGE_BASE_BUCKET = Some ''kb-bucket'',
      APP_AWS_ACCESS_KEY_ID = Some ''key-id'',
      APP_AWS_SECRET_ACCESS_KEY = Some ''secret'',
      s3_send = (\<lambda>bucket key. Inr \<lparr>Body = Some ''SGVsbG8='', ContentType = Some ''text/plain''\<rparr>),
      extractContentFromFile = (\<lambda>base64Data t. Inr ''Hello world. Hello again.''),
      findEmbeddingsForSource = (\<lambda>sourceId sourceType org. Inr example_existing),
      vectorIndex = True,
      vectorIndex_delete = (\<lambda>ids. None),
      batchUpsertEmbeddings = (\<lambda>items. None),
      chunkText = (\<lambda>text chunkSize overlap. Inr [''Hello world. '', ''Hello again.'']),
      now = 1700000000\<rparr>"





section \<open>S3 keys from URLs\<close>

text \<open>
  The platform functions used by \<open>extractS3KeyFromUrl\<close>, taken as parameters:
  \<open>new URL(url)\<close> (the host and the pathname, \<open>None\<close> when the constructor
  throws), \<open>decodeURIComponent\<close> (which throws on a malformed escape), and the
  tests of the two regular expressions.
\<close>

record url_platform =
  URL_parse :: "string \<Rightarrow> (string \<times> string) option"
  decodeURIComponent :: "string \<Rightarrow> thrown + string"
  s3_host_pattern_test :: "string \<Rightarrow> bool"
  domainPattern_test :: "string \<Rightarrow> bool"

definition dot_dot_slash :: string where
  "dot_dot_slash = ''../''"

definition dot_dot_backslash :: string where
  "dot_dot_backslash = [CHR ''.'', CHR ''.'', CHR 0x5C]"

definition isValidS3Host :: "url_platform \<Rightarrow> string \<Rightarrow> bool" where
  "isValidS3Host P host =
     (let normalizedHost = toLowerCase host
      in if \<not> endsWith normalizedHost ''.amazonaws.com'' then False
         else s3_host_pattern_test P normalizedHost)"

text \<open>The branch taken when the input parses as a URL (the same in both variants).\<close>

definition key_of_parsed_url :: "url_platform \<Rightarrow> string \<Rightarrow> string \<Rightarrow> thrown + string" where
  "key_of_parsed_url P host pathname =
     (if \<not> isValidS3Host P host then Inl (JsError ''Invalid URL: Not a valid S3 endpoint'')
      else
        case decodeURIComponent P (substring1 pathname) of
          Inl e \<Rightarrow> Inl e
        | Inr key \<Rightarrow>
            if str_includes key dot_dot_slash \<or> str_includes key dot_dot_backslash
            then Inl (JsError ''Invalid S3 key: Path traversal detected'')
            else if key = [] then Inl (JsError ''Invalid S3 key: Key cannot be empty'')
            else Inr key)"

text \<open>\<open>extractS3KeyFromUrl\<close> of the API (\<open>app/s3\<close>).\<close>

definition extractS3KeyFromUrl :: "url_platform \<Rightarrow> string \<Rightarrow> thrown + string" where
  "extractS3KeyFromUrl P url =
     (if url = [] then Inl (JsError ''Invalid input: URL must be a non-empty string'')
      else
        case URL_parse P url of
          Some (host, pathname) \<Rightarrow> key_of_parsed_url P host pathname
        | None \<Rightarrow>
            let lowerInput = toLowerCase url
            in if str_includes lowerInput ''://''
               then Inl (JsError ''Invalid input: Malformed URL detected'')
               else if domainPattern_test P url
               then Inl (JsError ''Invalid input: Domain-like pattern detected in S3 key'')
               else if str_includes url dot_dot_slash \<or> str_includes url dot_dot_backslash
               then Inl (JsError ''Invalid S3 key: Path traversal detected'')
               else
                 let key = (if startsWith url ''/'' then substring1 url else url)
                 in if key = [] then Inl (JsError ''Invalid S3 key: Key cannot be empty'')
                    else Inr key)"

text \<open>\<open>extractS3KeyFromUrl\<close> of the app and of the portal (\<open>utils/s3\<close>).\<close>

definition extractS3KeyFromUrl_app :: "url_platform \<Rightarrow> string \<Rightarrow> thrown + string" where
  "extractS3KeyFromUrl_app P url =
     (if url = [] then Inl (JsError ''Invalid input: URL must be a non-empty string'')
      else
        case URL_parse P url of
          Some (host, pathname) \<Rightarrow> key_of_parsed_url P host pathname
        | None \<Rightarrow>
            let lowerInput = toLowerCase url
            in if str_includes lowerInput ''://'' \<or> str_includes lowerInput ''amazonaws.com''
               then Inl (JsError ''Invalid input: Malformed URL detected'')
               else if str_includes url dot_dot_slash \<or> str_includes url dot_dot_backslash
               then Inl (JsError ''Invalid S3 key: Path traversal detected'')
               else
                 let key = (if startsWith url ''/'' then substring1 url else url)
                 in if key = [] then Inl (JsError ''Invalid S3 key: Key cannot be empty'')
                    else Inr key)"


text \<open>A platform for the examples: one URL that parses, and no escapes to decode.\<close>

definition example_platform :: url_platform where
  "example_platform =
     \<lparr>URL_parse =
        (\<lambda>url. if url = ''https://kb.s3.amazonaws.com/docs/a.pdf''
               then Some (''kb.s3.amazonaws.com'', ''/docs/a.pdf'') else None),
      decodeURIComponent = (\<lambda>s. Inr s),
      s3_host_pattern_test = (\<lambda>host. True),
      domainPattern_test = (\<lambda>url. False)\<rparr>"


section \<open>Facts about strings\<close>

lemma code_unit_eq_iff: "code_unit a = code_unit b \<longleftrightarrow> a = b"
  by (simp add: code_unit_def)

lemma str_less_lexord:
  "str_less u t \<longleftrightarrow> (u, t) \<in> lexord {(a, b). code_unit a < code_unit b}"
proof (induction u t rule: str_less.induct)
  case (4 x xs y ys)
  then show ?case
    by (auto simp: code_unit_eq_iff[symmetric])
qed simp_all

lemma startsWith_prefix: "startsWith s p \<longleftrightarrow> prefix p s"
  by (induction s p rule: startsWith.induct) auto

lemma includes_sublist: "str_includes s p \<longleftrightarrow> sublist p s"
proof (induction s)
  case Nil
  then show ?case by simp
next
  case (Cons c cs)
  then show ?case
    by (cases p) (auto simp: startsWith_prefix sublist_Cons_right)
qed


section \<open>What a run of the task does\<close>

lemmas action_defs = ret_def throw_def seq_def try_catch_def lift_def logger_def record_call_def

lemma extract_effect:
  "extractContentFromKnowledgeBaseDocument S (s3Key d) (fileType d) w =
     (extracted S d, w\<lparr>calls := calls w @ s3_calls S (s3Key d)\<rparr>)"
  unfolding extracted_def extractContentFromKnowledgeBaseDocument_def s3_calls_def
    createS3Client_def call_s3_send_def
  by (simp add: action_defs Let_def split: option.splits sum.splits)

lemma delete_existing_effect:
  "fst (delete_existing S i es w) = Inr () \<and>
   calls (snd (delete_existing S i es w)) = calls w @ delete_calls S es \<and>
   documents (snd (delete_existing S i es w)) = documents w"
  unfolding delete_existing_def delete_calls_def call_vectorIndex_delete_def
  by (cases "vectorIndex_delete S (map emb_id es)") (auto simp: action_defs Let_def)

lemma embed_content_calls:
  "calls (snd (embed_content S p i d content w)) = calls w @ upsert_calls S p i d content"
  unfolding embed_content_def upsert_calls_def call_batchUpsertEmbeddings_def db_update_def
  by (auto simp: action_defs Let_def kb_chunk_items_def split: option.splits sum.splits)

lemma delete_then_embed_calls:
  "calls (snd (seq (delete_existing S i es) (\<lambda>_. embed_content S p i d content) w)) =
     calls w @ delete_calls S es @ upsert_calls S p i d content"
proof -
  obtain w' where w': "delete_existing S i es w = (Inr (), w')"
    using delete_existing_effect[of S i es w] by (cases "delete_existing S i es w") auto
  then have "calls w' = calls w @ delete_calls S es"
    using delete_existing_effect[of S i es w] by simp
  then show ?thesis
    by (simp add: seq_def w' embed_content_calls)
qed

lemma dropWhile_all_iff: "(\<forall>x \<in> set (dropWhile P s). P x) \<longleftrightarrow> (\<forall>x \<in> set s. P x)"
proof
  assume a: "\<forall>x \<in> set (dropWhile P s). P x"
  have "dropWhile P s = []"
  proof (rule ccontr)
    assume n: "dropWhile P s \<noteq> []"
    then have "\<not> P (hd (dropWhile P s))" by (rule hd_dropWhile)
    moreover from n have "hd (dropWhile P s) \<in> set (dropWhile P s)" by simp
    ultimately show False using a by blast
  qed
  then show "\<forall>x \<in> set s. P x" by (simp add: dropWhile_eq_Nil_conv)
next
  assume "\<forall>x \<in> set s. P x"
  then show "\<forall>x \<in> set (dropWhile P s). P x" by (blast dest: set_dropWhileD)
qed

lemma blank_iff: "trim s = [] \<longleftrightarrow> blank s"
  by (simp add: trim_def blank_def dropWhile_eq_Nil_conv dropWhile_all_iff)

lemma blank_Nil: "blank []"
  by (simp add: blank_def)

lemma blank_cond: "(s = [] \<or> trim s = []) \<longleftrightarrow> blank s"
  using blank_iff blank_Nil by auto

lemma not_blank_not_Nil: "\<not> blank s \<Longrightarrow> s \<noteq> []"
  using blank_Nil by auto

lemma run_try_calls:
  "calls (snd (run_try S p w)) = calls w @
     (case owned_document w p of
        None \<Rightarrow> []
      | Some d \<Rightarrow>
          s3_calls S (s3Key d) @
          (case extracted S d of
             Inl e \<Rightarrow> []
           | Inr content \<Rightarrow>
               if blank content then []
               else FindEmbeddings (documentId p) KnowledgeBaseDocument (organizationId p) #
                 (case findEmbeddingsForSource S (documentId p) KnowledgeBaseDocument
                         (organizationId p) of
                    Inl e \<Rightarrow> []
                  | Inr es \<Rightarrow> delete_calls S es @ upsert_calls S p (documentId p) d content)))"
proof (cases "owned_document w p")
  case None
  then show ?thesis
    by (auto simp: run_try_def owned_document_def db_findUnique_def action_defs
        split: option.splits if_splits)
next
  case (Some d)
  then have doc: "documents w (documentId p) = Some d" "doc_organizationId d = organizationId p"
    by (auto simp: owned_document_def split: option.splits if_splits)
  show ?thesis
  proof (cases "extracted S d")
    case (Inl e)
    then show ?thesis
      using Some doc
      by (simp add: run_try_def db_findUnique_def db_update_def action_defs extract_effect)
  next
    case (Inr content)
    show ?thesis
    proof (cases "blank content")
      case True
      then show ?thesis
        using Some doc Inr
        by (simp add: run_try_def db_findUnique_def db_update_def action_defs extract_effect
            blank_iff blank_cond blank_Nil)
    next
      case False
      note False = False not_blank_not_Nil[OF False]
      show ?thesis
      proof (cases "findEmbeddingsForSource S (documentId p) KnowledgeBaseDocument (organizationId p)")
        case (Inl e)
        then show ?thesis
          using Some doc Inr False
          by (simp add: run_try_def db_findUnique_def db_update_def action_defs extract_effect
            blank_iff blank_cond call_findEmbeddingsForSource_def)
      next
        case es: (Inr es)
        then show ?thesis
          using Some doc Inr False
          by (simp add: run_try_def db_findUnique_def db_update_def action_defs extract_effect
            blank_iff blank_cond call_findEmbeddingsForSource_def
            delete_then_embed_calls[unfolded seq_def])
      qed
    qed
  qed
qed


lemma embed_content_fst:
  assumes "documents w i = Some d0"
  shows "fst (embed_content S p i d content w) = embed_outcome S p i d content"
  using assms
  unfolding embed_content_def embed_outcome_def call_batchUpsertEmbeddings_def db_update_def
  by (auto simp: action_defs Let_def split: option.splits sum.splits)

lemma embed_content_documents:
  assumes "documents w i = Some d0"
  shows "documents (snd (embed_content S p i d content w)) =
     (case embed_outcome S p i d content of
        Inl e \<Rightarrow> documents w
      | Inr r \<Rightarrow> (documents w)(i \<mapsto> (if success r then mark_completed S d0 else mark_failed S d0)))"
  using assms
  unfolding embed_content_def embed_outcome_def call_batchUpsertEmbeddings_def db_update_def
  by (auto simp: action_defs Let_def split: option.splits sum.splits)

lemma delete_then_embed_fst:
  assumes "documents w i = Some d0"
  shows "fst (seq (delete_existing S i es) (\<lambda>_. embed_content S p i d content) w) =
     embed_outcome S p i d content"
proof -
  obtain w' where w': "delete_existing S i es w = (Inr (), w')"
    using delete_existing_effect[of S i es w] by (cases "delete_existing S i es w") auto
  then have "documents w' = documents w"
    using delete_existing_effect[of S i es w] by simp
  then show ?thesis
    using assms by (simp add: seq_def w' embed_content_fst)
qed

lemma delete_then_embed_documents:
  assumes "documents w i = Some d0"
  shows "documents (snd (seq (delete_existing S i es) (\<lambda>_. embed_content S p i d content) w)) =
     (case embed_outcome S p i d content of
        Inl e \<Rightarrow> documents w
      | Inr r \<Rightarrow> (documents w)(i \<mapsto> (if success r then mark_completed S d0 else mark_failed S d0)))"
proof -
  obtain w' where w': "delete_existing S i es w = (Inr (), w')"
    using delete_existing_effect[of S i es w] by (cases "delete_existing S i es w") auto
  then have "documents w' = documents w"
    using delete_existing_effect[of S i es w] by simp
  then show ?thesis
    using assms by (simp add: seq_def w' embed_content_documents split: sum.splits)
qed


lemma run_try_fst: "fst (run_try S p w) = try_outcome S p w"
proof (cases "owned_document w p")
  case None
  then show ?thesis
    by (auto simp: run_try_def try_outcome_def owned_document_def db_findUnique_def action_defs
        split: option.splits if_splits)
next
  case (Some d)
  then have doc: "documents w (documentId p) = Some d" "doc_organizationId d = organizationId p"
    by (auto simp: owned_document_def split: option.splits if_splits)
  show ?thesis
  proof (cases "extracted S d")
    case (Inl e)
    then show ?thesis
      using Some doc
      by (simp add: run_try_def try_outcome_def db_findUnique_def db_update_def action_defs
          extract_effect)
  next
    case (Inr content)
    show ?thesis
    proof (cases "blank content")
      case True
      then show ?thesis
        using Some doc Inr
        by (simp add: run_try_def try_outcome_def db_findUnique_def db_update_def action_defs
            extract_effect blank_iff blank_cond blank_Nil)
    next
      case False
      note False = False not_blank_not_Nil[OF False]
      show ?thesis
      proof (cases "findEmbeddingsForSource S (documentId p) KnowledgeBaseDocument (organizationId p)")
        case (Inl e)
        then show ?thesis
          using Some doc Inr False
          by (simp add: run_try_def try_outcome_def db_findUnique_def db_update_def action_defs
              extract_effect blank_iff blank_cond call_findEmbeddingsForSource_def)
      next
        case es: (Inr es)
        then show ?thesis
          using Some doc Inr False
          by (simp add: run_try_def try_outcome_def db_findUnique_def db_update_def action_defs
              extract_effect blank_iff blank_cond call_findEmbeddingsForSource_def
              delete_then_embed_fst[unfolded seq_def])
      qed
    qed
  qed
qed

lemma run_try_documents:
  "documents (snd (run_try S p w)) =
     (case owned_document w p of
        None \<Rightarrow> documents w
      | Some d \<Rightarrow>
          (documents w)(documentId p \<mapsto>
            (case try_outcome S p w of
               Inl e \<Rightarrow> d\<lparr>processingStatus := Processing\<rparr>
             | Inr r \<Rightarrow>
                 if success r then mark_completed S (d\<lparr>processingStatus := Processing\<rparr>)
                 else mark_failed S (d\<lparr>processingStatus := Processing\<rparr>))))"
proof (cases "owned_document w p")
  case None
  then show ?thesis
    by (auto simp: run_try_def try_outcome_def owned_document_def db_findUnique_def action_defs
        split: option.splits if_splits)
next
  case (Some d)
  then have doc: "documents w (documentId p) = Some d" "doc_organizationId d = organizationId p"
    by (auto simp: owned_document_def split: option.splits if_splits)
  show ?thesis
  proof (cases "extracted S d")
    case (Inl e)
    then show ?thesis
      using Some doc
      by (simp add: run_try_def try_outcome_def db_findUnique_def db_update_def action_defs
          extract_effect)
  next
    case (Inr content)
    show ?thesis
    proof (cases "blank content")
      case True
      then show ?thesis
        using Some doc Inr
        by (simp add: run_try_def try_outcome_def db_findUnique_def db_update_def action_defs
            extract_effect blank_iff blank_cond blank_Nil)
    next
      case False
      note False = False not_blank_not_Nil[OF False]
      show ?thesis
      proof (cases "findEmbeddingsForSource S (documentId p) KnowledgeBaseDocument (organizationId p)")
        case (Inl e)
        then show ?thesis
          using Some doc Inr False
          by (simp add: run_try_def try_outcome_def db_findUnique_def db_update_def action_defs
              extract_effect blank_iff blank_cond call_findEmbeddingsForSource_def)
      next
        case es: (Inr es)
        then show ?thesis
          using Some doc Inr False
          by (simp add: run_try_def try_outcome_def db_findUnique_def db_update_def action_defs
              extract_effect blank_iff blank_cond call_findEmbeddingsForSource_def
              delete_then_embed_documents[unfolded seq_def] split: sum.splits)
      qed
    qed
  qed
qed


lemma owned_document_logs: "owned_document (w\<lparr>logs := l\<rparr>) p = owned_document w p"
  by (simp add: owned_document_def)

lemma try_outcome_logs: "try_outcome S p (w\<lparr>logs := l\<rparr>) = try_outcome S p w"
  by (simp add: try_outcome_def owned_document_logs)

lemma try_outcome_thrown_owned:
  "try_outcome S p w = Inl e \<Longrightarrow> \<exists>d. owned_document w p = Some d"
  by (cases "owned_document w p") (simp_all add: try_outcome_def)

lemma owned_document_row:
  "owned_document w p = Some d \<Longrightarrow> documents w (documentId p) = Some d"
  by (auto simp: owned_document_def split: option.splits if_splits)

lemma guarded_fst:
  "fst (try_catch (run_try S p) (on_error S p) w) =
     Inr (case try_outcome S p w of
            Inl e \<Rightarrow> \<lparr>success = False, result_documentId = documentId p, chunkCount = None,
                       error = Some (error_message e)\<rparr>
          | Inr r \<Rightarrow> r)"
proof -
  obtain w' where "run_try S p w = (try_outcome S p w, w')"
    using run_try_fst[of S p w] by (cases "run_try S p w") auto
  then show ?thesis
    by (auto simp: on_error_def action_defs db_update_def split: sum.splits option.splits)
qed

lemma guarded_calls:
  "calls (snd (try_catch (run_try S p) (on_error S p) w)) = calls (snd (run_try S p w))"
  by (auto simp: on_error_def action_defs db_update_def split: sum.splits option.splits prod.splits)

lemma guarded_documents:
  "documents (snd (try_catch (run_try S p) (on_error S p) w)) =
     (case owned_document w p of
        None \<Rightarrow> documents w
      | Some d \<Rightarrow>
          (documents w)(documentId p \<mapsto>
            (if succeeded (try_outcome S p w)
             then mark_completed S (d\<lparr>processingStatus := Processing\<rparr>)
             else mark_failed S (d\<lparr>processingStatus := Processing\<rparr>))))"
proof -
  obtain w' where w': "run_try S p w = (try_outcome S p w, w')"
    using run_try_fst[of S p w] by (cases "run_try S p w") auto
  have d': "documents w' =
     (case owned_document w p of
        None \<Rightarrow> documents w
      | Some d \<Rightarrow>
          (documents w)(documentId p \<mapsto>
            (case try_outcome S p w of
               Inl e \<Rightarrow> d\<lparr>processingStatus := Processing\<rparr>
             | Inr r \<Rightarrow>
                 if success r then mark_completed S (d\<lparr>processingStatus := Processing\<rparr>)
                 else mark_failed S (d\<lparr>processingStatus := Processing\<rparr>))))"
    using run_try_documents[of S p w] w' by simp
  show ?thesis
  proof (cases "try_outcome S p w")
    case (Inl e)
    then obtain d where "owned_document w p = Some d"
      using try_outcome_thrown_owned by blast
    then show ?thesis
      using Inl w' d'
      by (simp add: on_error_def action_defs db_update_def succeeded_def mark_failed_def)
  next
    case (Inr r)
    then show ?thesis
      using w' d' by (simp add: try_catch_def succeeded_def split: option.splits)
  qed
qed

lemma run_guarded:
  "\<exists>l. run S p w = try_catch (run_try S p) (on_error S p) (w\<lparr>logs := l\<rparr>)"
  by (auto simp: run_def seq_def logger_def)

lemma run_fst:
  "fst (run S p w) =
     Inr (case try_outcome S p w of
            Inl e \<Rightarrow> \<lparr>success = False, result_documentId = documentId p, chunkCount = None,
                       error = Some (error_message e)\<rparr>
          | Inr r \<Rightarrow> r)"
  using run_guarded[of S p w] by (auto simp: guarded_fst try_outcome_logs)

lemma run_documents:
  "documents (snd (run S p w)) =
     (case owned_document w p of
        None \<Rightarrow> documents w
      | Some d \<Rightarrow>
          (documents w)(documentId p \<mapsto>
            (if succeeded (try_outcome S p w)
             then mark_completed S (d\<lparr>processingStatus := Processing\<rparr>)
             else mark_failed S (d\<lparr>processingStatus := Processing\<rparr>))))"
  using run_guarded[of S p w]
  by (auto simp: guarded_documents try_outcome_logs owned_document_logs split: option.splits)

lemma run_calls:
  "new_calls S p w =
     (case owned_document w p of
        None \<Rightarrow> []
      | Some d \<Rightarrow>
          s3_calls S (s3Key d) @
          (case extracted S d of
             Inl e \<Rightarrow> []
           | Inr content \<Rightarrow>
               if blank content then []
               else FindEmbeddings (documentId p) KnowledgeBaseDocument (organizationId p) #
                 (case findEmbeddingsForSource S (documentId p) KnowledgeBaseDocument
                         (organizationId p) of
                    Inl e \<Rightarrow> []
                  | Inr es \<Rightarrow> delete_calls S es @ upsert_calls S p (documentId p) d content)))"
  using run_guarded[of S p w]
  by (auto simp: new_calls_def guarded_calls run_try_calls owned_document_logs)


section \<open>Evaluating the examples\<close>

lemma string_of_nat_0: "string_of_nat 0 = ''0''"
  by (simp add: string_of_nat.simps digit_char_def)

lemma string_of_nat_1: "string_of_nat (Suc 0) = ''1''"
  by (simp add: string_of_nat.simps digit_char_def)

lemma has_text_iff: "has_text item \<longleftrightarrow> \<not> blank (item_text item)"
  using blank_cond[of "item_text item"] by (auto simp: has_text_def)

lemma example_services_fields:
  "APP_AWS_KNOWLEDGE_BASE_BUCKET example_services = Some ''kb-bucket''"
  "APP_AWS_ACCESS_KEY_ID example_services = Some ''key-id''"
  "APP_AWS_SECRET_ACCESS_KEY example_services = Some ''secret''"
  "s3_send example_services bucket key = Inr \<lparr>Body = Some ''SGVsbG8='', ContentType = Some ''text/plain''\<rparr>"
  "extractContentFromFile example_services base64Data t = Inr ''Hello world. Hello again.''"
  "findEmbeddingsForSource example_services sourceId sourceType org = Inr example_existing"
  "vectorIndex example_services"
  "vectorIndex_delete example_services ids = None"
  "batchUpsertEmbeddings example_services items = None"
  "chunkText example_services text chunkSize overlap = Inr [''Hello world. '', ''Hello again.'']"
  "now example_services = 1700000000"
  by (simp_all add: example_services_def)

lemma example_payload_fields:
  "documentId example_payload = ''doc-1''" "organizationId example_payload = ''org-1''"
  by (simp_all add: example_payload_def)

lemma example_document_fields:
  "doc_organizationId example_document = ''org-1''" "doc_name example_document = ''handbook.txt''"
  "s3Key example_document = ''org-1/handbook.txt''" "fileType example_document = ''text/plain''"
  "doc_updatedAt example_document = ''2024-02-01T00:00:00.000Z''"
  by (simp_all add: example_document_def)

lemma example_owned: "owned_document example_world example_payload = Some example_document"
  by (simp add: owned_document_def example_world_def example_payload_fields example_document_fields)

lemma extracted_unfold:
  "extracted S d =
     (case APP_AWS_KNOWLEDGE_BASE_BUCKET S of
        None \<Rightarrow> Inl (JsError ''Knowledge base bucket is not configured. Please set APP_AWS_KNOWLEDGE_BASE_BUCKET environment variable in Trigger.dev.'')
      | Some b \<Rightarrow>
          if b = [] then Inl (JsError ''Knowledge base bucket is not configured. Please set APP_AWS_KNOWLEDGE_BASE_BUCKET environment variable in Trigger.dev.'')
          else if falsy (APP_AWS_ACCESS_KEY_ID S) \<or> falsy (APP_AWS_SECRET_ACCESS_KEY S)
          then Inl (JsError ''AWS S3 credentials are missing. Please set APP_AWS_ACCESS_KEY_ID and APP_AWS_SECRET_ACCESS_KEY environment variables in Trigger.dev.'')
          else
            (case s3_send S b (s3Key d) of
               Inl e \<Rightarrow> Inl e
             | Inr response \<Rightarrow>
                 (case Body response of
                    None \<Rightarrow> Inl (JsError ''Failed to retrieve file from S3'')
                  | Some base64Data \<Rightarrow>
                      extractContentFromFile S base64Data
                        (case ContentType response of
                           None \<Rightarrow> if fileType d = [] then ''application/octet-stream'' else fileType d
                         | Some t \<Rightarrow>
                             if t \<noteq> [] then t
                             else if fileType d = [] then ''application/octet-stream''
                             else fileType d))))"
  unfolding extracted_def extractContentFromKnowledgeBaseDocument_def createS3Client_def
    call_s3_send_def
  by (simp add: action_defs Let_def split: option.splits sum.splits)

lemma example_not_blank: "\<not> blank ''Hello world. Hello again.''"
  by (simp add: blank_def is_white_space_def code_unit_def)

lemma example_items:
  "kb_chunk_items example_payload ''doc-1'' example_document [''Hello world. '', ''Hello again.''] \<noteq> []"
  by (simp add: kb_chunk_items_def Let_def has_text_iff blank_def is_white_space_def code_unit_def)

lemmas example_eval = example_services_fields example_payload_fields example_document_fields
  example_owned example_not_blank example_items extracted_unfold falsy_def
  s3_calls_def delete_calls_def upsert_calls_def


section \<open>Chunk identifiers and metadata\<close>

lemma string_of_nat_not_Nil: "string_of_nat n \<noteq> []"
  by (subst string_of_nat.simps) simp

lemma digit_char_inj: "a < 10 \<Longrightarrow> b < 10 \<Longrightarrow> digit_char a = digit_char b \<Longrightarrow> a = b"
proof -
  assume a: "a < 10" and b: "b < 10" and e: "digit_char a = digit_char b"
  have d: "distinct ''0123456789''" by simp
  have "a < length ''0123456789''" "b < length ''0123456789''" using a b by simp_all
  then show "a = b"
    using e d unfolding digit_char_def by (simp only: nth_eq_iff_index_eq)
qed

lemma string_of_nat_inj: "string_of_nat m = string_of_nat n \<Longrightarrow> m = n"
proof (induction m arbitrary: n rule: string_of_nat.induct)
  case (1 m)
  show ?case
  proof (cases "m < 10")
    case True
    then have m: "string_of_nat m = [digit_char m]" by (subst string_of_nat.simps) simp
    show ?thesis
    proof (cases "n < 10")
      case n: True
      then have "string_of_nat n = [digit_char n]" by (subst string_of_nat.simps) simp
      then show ?thesis using m "1.prems" True n digit_char_inj by simp
    next
      case n: False
      then have "string_of_nat n = string_of_nat (n div 10) @ [digit_char (n mod 10)]"
        by (subst string_of_nat.simps) simp
      then have "length (string_of_nat n) \<ge> 2"
        using string_of_nat_not_Nil[of "n div 10"]
        by (cases "string_of_nat (n div 10)") simp_all
      then show ?thesis using m "1.prems" by simp
    qed
  next
    case False
    then have m: "string_of_nat m = string_of_nat (m div 10) @ [digit_char (m mod 10)]"
      by (subst string_of_nat.simps) simp
    show ?thesis
    proof (cases "n < 10")
      case n: True
      then have "string_of_nat n = [digit_char n]" by (subst string_of_nat.simps) simp
      moreover have "length (string_of_nat m) \<ge> 2"
        using m string_of_nat_not_Nil[of "m div 10"]
        by (cases "string_of_nat (m div 10)") simp_all
      ultimately show ?thesis using "1.prems" by simp
    next
      case n: False
      then have "string_of_nat n = string_of_nat (n div 10) @ [digit_char (n mod 10)]"
        by (subst string_of_nat.simps) simp
      then have "string_of_nat (m div 10) = string_of_nat (n div 10)"
        and dd: "digit_char (m mod 10) = digit_char (n mod 10)"
        using m "1.prems" by simp_all
      then have "m div 10 = n div 10" using "1.IH"[OF False] by simp
      moreover have "m mod 10 = n mod 10" using dd digit_char_inj by simp
      ultimately show ?thesis by (metis div_mult_mod_eq)
    qed
  qed
qed

lemma enumerate_nth: "enumerate 0 xs = map (\<lambda>j. (j, xs ! j)) [0..<length xs]"
  by (rule nth_equalityI) (simp_all add: nth_enumerate_eq)

lemma chunk_items_ids:
  "map item_id (filter has_text (map (\<lambda>(j, chunk). \<lparr>item_id = f j, item_text = chunk, metadata = g j chunk\<rparr>) (enumerate 0 chunks))) =
   map f (filter (\<lambda>j. \<not> blank (chunks ! j)) [0..<length chunks])"
  by (simp add: enumerate_nth filter_map comp_def has_text_iff)


lemma filter_upt_all: "(\<forall>j < n. P j) \<Longrightarrow> filter P [0..<n] = [0..<n]"
  by (simp add: filter_id_conv)

lemma kb_chunk_items_metadata:
  assumes "item \<in> set (kb_chunk_items p document_id d chunks)"
  shows "metadata item ''organizationId'' = Some (organizationId p)
       \<and> metadata item ''sourceId'' = Some document_id
       \<and> metadata item ''updatedAt'' = Some (doc_updatedAt d)"
  using assms by (auto simp: kb_chunk_items_def Let_def)

lemma upsert_in_run:
  assumes "BatchUpsert items \<in> set (new_calls S p w)"
  shows "\<exists>d chunks. owned_document w p = Some d \<and>
           items = kb_chunk_items p (documentId p) d chunks"
proof (cases "owned_document w p")
  case None
  then show ?thesis using assms by (simp add: run_calls)
next
  case (Some d)
  show ?thesis
  proof (cases "extracted S d")
    case (Inl e)
    then show ?thesis
      using assms Some by (auto simp: run_calls s3_calls_def split: option.splits if_splits)
  next
    case (Inr content)
    show ?thesis
    proof (cases "findEmbeddingsForSource S (documentId p) KnowledgeBaseDocument (organizationId p)")
      case (Inl e)
      then show ?thesis
        using assms Some Inr
        by (auto simp: run_calls s3_calls_def split: option.splits if_splits)
    next
      case es: (Inr es)
      show ?thesis
      proof (cases "chunkText S content 500 50")
        case (Inl e)
        then show ?thesis
          using assms Some Inr es
          by (auto simp: run_calls s3_calls_def delete_calls_def upsert_calls_def
              split: option.splits if_splits)
      next
        case chunks: (Inr chunks)
        then show ?thesis
          using assms Some Inr es
          by (auto simp: run_calls s3_calls_def delete_calls_def upsert_calls_def
              split: option.splits if_splits)
      qed
    qed
  qed
qed



section \<open>The order of the calls\<close>

















section \<open>Failures inside a run\<close>

lemma delete_irrelevant:
  "extracted (S\<lparr>vectorIndex_delete := g\<rparr>) d = extracted S d"
  "embed_outcome (S\<lparr>vectorIndex_delete := g\<rparr>) p i d content = embed_outcome S p i d content"
  "s3_calls (S\<lparr>vectorIndex_delete := g\<rparr>) k = s3_calls S k"
  "delete_calls (S\<lparr>vectorIndex_delete := g\<rparr>) es = delete_calls S es"
  "upsert_calls (S\<lparr>vectorIndex_delete := g\<rparr>) p i d content = upsert_calls S p i d content"
  "mark_completed (S\<lparr>vectorIndex_delete := g\<rparr>) d = mark_completed S d"
  "mark_failed (S\<lparr>vectorIndex_delete := g\<rparr>) d = mark_failed S d"
  by (simp_all add: extracted_unfold embed_outcome_def s3_calls_def delete_calls_def
      upsert_calls_def mark_completed_def mark_failed_def
      cong: option.case_cong sum.case_cong if_cong)

lemma try_outcome_delete_irrelevant:
  "try_outcome (S\<lparr>vectorIndex_delete := g\<rparr>) p w = try_outcome S p w"
  by (simp add: try_outcome_def delete_irrelevant cong: option.case_cong sum.case_cong if_cong)

lemma new_calls_delete_irrelevant:
  "new_calls (S\<lparr>vectorIndex_delete := g\<rparr>) p w = new_calls S p w"
  by (simp add: run_calls delete_irrelevant cong: option.case_cong sum.case_cong if_cong)

lemma documents_delete_irrelevant:
  "documents (snd (run (S\<lparr>vectorIndex_delete := g\<rparr>) p w)) = documents (snd (run S p w))"
  by (simp add: run_documents try_outcome_delete_irrelevant delete_irrelevant
      cong: option.case_cong if_cong)

lemma delete_existing_failure:
  assumes "es \<noteq> []" "vectorIndex S" "vectorIndex_delete S (map emb_id es) = Some e"
  shows "fst (delete_existing S i es w) = Inr ()
       \<and> calls (snd (delete_existing S i es w)) = calls w @ [VectorIndexDelete (map emb_id es)]
       \<and> logs (snd (delete_existing S i es w)) =
           logs w @ [(Warn, ''Failed to delete existing embeddings'',
                      [(''documentId'', i), (''error'', error_message e)])]"
  using assms
  by (simp add: delete_existing_def call_vectorIndex_delete_def action_defs Let_def)

lemma spread_with_map_of:
  "map_of (spread_with ctx key v) = (map_of ctx)(key \<mapsto> v)"
  by (induction ctx key v rule: spread_with.induct) (auto simp: fun_upd_twist)

lemma spread_with_keys:
  "set (map fst (spread_with ctx key v)) = insert key (set (map fst ctx))"
  by (induction ctx key v rule: spread_with.induct) auto

lemma spread_with_distinct:
  "distinct (map fst ctx) \<Longrightarrow> distinct (map fst (spread_with ctx key v))"
proof (induction ctx key v rule: spread_with.induct)
  case (1 key v)
  then show ?case by simp
next
  case (2 k old entries key v)
  then show ?case
    using spread_with_keys[of entries key v] by auto
qed

lemma deleteOldEmbeddings_returns: "fst (deleteOldEmbeddings S es ctx w) = Inr ()"
  by (cases "vectorIndex_delete S (map emb_id es)")
    (simp_all add: deleteOldEmbeddings_def call_vectorIndex_delete_def action_defs Let_def)

lemma deleteOldEmbeddings_Nil: "deleteOldEmbeddings S [] ctx w = (Inr (), w)"
  by (simp add: deleteOldEmbeddings_def ret_def)

lemma deleteOldEmbeddings_failure:
  assumes "es \<noteq> []" "vectorIndex S" "vectorIndex_delete S (map emb_id es) = Some e"
  shows "calls (snd (deleteOldEmbeddings S es ctx w)) = calls w @ [VectorIndexDelete (map emb_id es)]
       \<and> logs (snd (deleteOldEmbeddings S es ctx w)) =
           logs w @ [(Warn, ''Failed to delete old embeddings'',
                      spread_with ctx ''error'' (error_message e))]"
  using assms
  by (simp add: deleteOldEmbeddings_def call_vectorIndex_delete_def action_defs Let_def)





section \<open>Facts about S3 keys\<close>

lemma includes_substring1: "str_includes (substring1 s) p \<Longrightarrow> str_includes s p"
  unfolding includes_sublist substring1_def
  using sublist_drop sublist_order.order_trans by blast

lemma derived_key_includes:
  "str_includes (if startsWith url ''/'' then substring1 url else url) p \<Longrightarrow> str_includes url p"
  by (auto dest: includes_substring1 split: if_splits)

lemma key_of_parsed_url_safe:
  "key_of_parsed_url P host pathname = Inr key \<Longrightarrow>
     key \<noteq> [] \<and> \<not> str_includes key dot_dot_slash \<and> \<not> str_includes key dot_dot_backslash"
  by (auto simp: key_of_parsed_url_def split: if_splits sum.splits)


section \<open>The skip path\<close>

text \<open>
  C1 (counterexample). The existing embeddings of the example document all
  record the document's own \<open>updatedAt\<close>, so \<open>needsUpdate\<close> is false; the run
  nevertheless deletes them and upserts the chunk items again.
\<close>

theorem skip_path_counterexample:
  "\<not> needsUpdate example_existing (doc_updatedAt example_document)
   \<and> findEmbeddingsForSource example_services ''doc-1'' KnowledgeBaseDocument ''org-1''
       = Inr example_existing
   \<and> filter is_index_mutation (new_calls example_services example_payload example_world)
       = [VectorIndexDelete [''knowledge_base_document_doc-1_chunk0'',
                             ''knowledge_base_document_doc-1_chunk1''],
          BatchUpsert (kb_chunk_items example_payload ''doc-1'' example_document
                         [''Hello world. '', ''Hello again.''])]"
proof -
  have "\<not> needsUpdate example_existing (doc_updatedAt example_document)"
    by (simp add: needsUpdate_def falsy_def example_existing_def example_document_def code_unit_def)
  moreover have "findEmbeddingsForSource example_services ''doc-1'' KnowledgeBaseDocument ''org-1''
       = Inr example_existing"
    by (simp add: example_services_def)
  moreover have "filter is_index_mutation (new_calls example_services example_payload example_world)
       = [VectorIndexDelete [''knowledge_base_document_doc-1_chunk0'',
                             ''knowledge_base_document_doc-1_chunk1''],
          BatchUpsert (kb_chunk_items example_payload ''doc-1'' example_document
                         [''Hello world. '', ''Hello again.''])]"
    by (simp add: run_calls example_eval is_index_mutation_def)
      (simp add: example_existing_def)
  ultimately show ?thesis by blast
qed

text \<open>
  C1 (amended). The task never consults the staleness check. Whenever the
  document is found, its extracted content is not blank, the chunker yields at
  least one item with text and the upsert succeeds, the run issues one delete
  of all the existing embedding ids (when there are any and the index is
  configured), then one upsert of the regenerated chunk items, returns
  success and marks the document \<open>completed\<close> with \<open>processedAt\<close> set; this
  holds whether or not \<open>needsUpdate\<close> is false, so a second run on an
  unchanged source repeats the delete and the upsert.
\<close>

theorem run_always_reembeds:
  assumes "owned_document w p = Some d"
    and "extracted S d = Inr content"
    and "\<not> blank content"
    and "findEmbeddingsForSource S (documentId p) KnowledgeBaseDocument (organizationId p) = Inr es"
    and "chunkText S content 500 50 = Inr chunks"
    and "kb_chunk_items p (documentId p) d chunks \<noteq> []"
    and "batchUpsertEmbeddings S (kb_chunk_items p (documentId p) d chunks) = None"
  shows "filter is_index_mutation (new_calls S p w) =
           (if es \<noteq> [] \<and> vectorIndex S then [VectorIndexDelete (map emb_id es)] else []) @
           [BatchUpsert (kb_chunk_items p (documentId p) d chunks)]
       \<and> fst (run S p w) =
           Inr \<lparr>success = True, result_documentId = documentId p,
                chunkCount = Some (length (kb_chunk_items p (documentId p) d chunks)),
                error = None\<rparr>
       \<and> (\<exists>d'. documents (snd (run S p w)) (documentId p) = Some d' \<and>
                processingStatus d' = Completed \<and> processedAt d' = Some (now S))"
proof -
  have ne: "chunks \<noteq> []"
    using assms(6) by (auto simp: kb_chunk_items_def)
  have out: "try_outcome S p w =
      Inr \<lparr>success = True, result_documentId = documentId p,
           chunkCount = Some (length (kb_chunk_items p (documentId p) d chunks)), error = None\<rparr>"
    using assms ne by (simp add: try_outcome_def embed_outcome_def)
  have "filter is_index_mutation (new_calls S p w) =
           (if es \<noteq> [] \<and> vectorIndex S then [VectorIndexDelete (map emb_id es)] else []) @
           [BatchUpsert (kb_chunk_items p (documentId p) d chunks)]"
    using assms
    by (simp add: run_calls s3_calls_def delete_calls_def upsert_calls_def is_index_mutation_def
        split: option.splits)
  moreover have "fst (run S p w) =
           Inr \<lparr>success = True, result_documentId = documentId p,
                chunkCount = Some (length (kb_chunk_items p (documentId p) d chunks)),
                error = None\<rparr>"
    by (simp add: run_fst out)
  moreover have "\<exists>d'. documents (snd (run S p w)) (documentId p) = Some d' \<and>
                processingStatus d' = Completed \<and> processedAt d' = Some (now S)"
    using assms(1) by (simp add: run_documents out succeeded_def mark_completed_def)
  ultimately show ?thesis by blast
qed

theorem run_always_reembeds_witness:
  "\<not> needsUpdate example_existing (doc_updatedAt example_document)
   \<and> filter is_index_mutation (new_calls example_services example_payload example_world) =
       [VectorIndexDelete (map emb_id example_existing),
        BatchUpsert (kb_chunk_items example_payload ''doc-1'' example_document
                       [''Hello world. '', ''Hello again.''])]
   \<and> fst (run example_services example_payload example_world) =
       Inr \<lparr>success = True, result_documentId = ''doc-1'', chunkCount = Some 2, error = None\<rparr>"
proof -
  have n: "\<not> needsUpdate example_existing (doc_updatedAt example_document)"
    by (simp add: needsUpdate_def falsy_def example_existing_def example_document_def code_unit_def)
  have l: "length (kb_chunk_items example_payload ''doc-1'' example_document
                       [''Hello world. '', ''Hello again.'']) = 2"
    by (simp add: kb_chunk_items_def Let_def has_text_iff blank_def is_white_space_def code_unit_def)
  have e: "example_existing \<noteq> []" by (simp add: example_existing_def)
  show ?thesis
    using n l e
      run_always_reembeds[of example_world example_payload example_document example_services
        "''Hello world. Hello again.''" example_existing "[''Hello world. '', ''Hello again.'']"]
    by (simp add: example_eval)
qed


section \<open>The staleness check\<close>

text \<open>
  C2 (counterexample). The specification's reading of \<open>needsUpdate\<close> is false
  for an embedding that records no \<open>updatedAt\<close>, and for one that records the
  empty string: the code reports both as stale, the specification's condition
  does not hold for either.
\<close>

theorem needsUpdate_spec_counterexample:
  "needsUpdate [\<lparr>emb_id = ''e1'', emb_updatedAt = None\<rparr>] ''2024-02-01''
   \<noteq> needsUpdate_spec [\<lparr>emb_id = ''e1'', emb_updatedAt = None\<rparr>] ''2024-02-01''
   \<and> needsUpdate [\<lparr>emb_id = ''e1'', emb_updatedAt = Some ''''\<rparr>] ''''
   \<noteq> needsUpdate_spec [\<lparr>emb_id = ''e1'', emb_updatedAt = Some ''''\<rparr>] ''''"
  by (simp add: needsUpdate_def needsUpdate_spec_def falsy_def)

text \<open>
  C2 (amended). \<open>needsUpdate\<close> is true exactly when there is no existing
  embedding, or some existing embedding has no recorded \<open>updatedAt\<close> (absent
  or empty), or some existing embedding's recorded \<open>updatedAt\<close> is
  lexicographically less than the source's; with the three examples of the
  specification.
\<close>

theorem needsUpdate_iff:
  "(needsUpdate es t \<longleftrightarrow>
      es = [] \<or>
      (\<exists>e \<in> set es. emb_updatedAt e = None \<or> emb_updatedAt e = Some [] \<or>
         (\<exists>u. emb_updatedAt e = Some u \<and>
              (u, t) \<in> lexord {(a, b). code_unit a < code_unit b})))
   \<and> needsUpdate [] t
   \<and> needsUpdate [\<lparr>emb_id = i, emb_updatedAt = Some ''2024-01-01''\<rparr>] ''2024-02-01''
   \<and> \<not> needsUpdate [\<lparr>emb_id = i, emb_updatedAt = Some ''2024-03-01''\<rparr>] ''2024-02-01''"
proof -
  have "needsUpdate es t \<longleftrightarrow>
      es = [] \<or>
      (\<exists>e \<in> set es. emb_updatedAt e = None \<or> emb_updatedAt e = Some [] \<or>
         (\<exists>u. emb_updatedAt e = Some u \<and>
              (u, t) \<in> lexord {(a, b). code_unit a < code_unit b}))"
    unfolding needsUpdate_def list_ex_iff falsy_def
    by (cases "es = []") (fastforce simp: str_less_lexord split: option.splits)+
  moreover have "needsUpdate [] t"
    by (simp add: needsUpdate_def)
  moreover have
    "needsUpdate [\<lparr>emb_id = i, emb_updatedAt = Some ''2024-01-01''\<rparr>] ''2024-02-01''"
    by (simp add: needsUpdate_def falsy_def code_unit_def)
  moreover have
    "\<not> needsUpdate [\<lparr>emb_id = i, emb_updatedAt = Some ''2024-03-01''\<rparr>] ''2024-02-01''"
    by (simp add: needsUpdate_def falsy_def code_unit_def)
  ultimately show ?thesis by blast
qed

theorem needsUpdate_iff_witness:
  "needsUpdate [\<lparr>emb_id = ''e1'', emb_updatedAt = Some ''2024-01-01''\<rparr>,
                \<lparr>emb_id = ''e2'', emb_updatedAt = None\<rparr>] ''2024-01-01''
   \<and> \<not> needsUpdate [\<lparr>emb_id = ''e1'', emb_updatedAt = Some ''2024-01-01''\<rparr>] ''2024-01-01''"
  using needsUpdate_iff
    [of "[\<lparr>emb_id = ''e1'', emb_updatedAt = Some ''2024-01-01''\<rparr>,
          \<lparr>emb_id = ''e2'', emb_updatedAt = None\<rparr>]" "''2024-01-01''"]
    needsUpdate_iff
    [of "[\<lparr>emb_id = ''e1'', emb_updatedAt = Some ''2024-01-01''\<rparr>]" "''2024-01-01''"]
  by (simp add: lexord_irreflexive)


section \<open>Chunk identifiers\<close>

text \<open>
  C3 (counterexample). With the chunker of the specification, chunk size 2 and
  no overlap, the text of two spaces followed by \<open>ab\<close> has a blank first
  chunk, which \<open>createChunkItems\<close> drops: the item at position 0 of the result
  carries the id of chunk index 1, not 0.
\<close>

theorem createChunkItems_counterexample:
  "chunk_ids (createChunkItems chunkText_spec ''  ab'' ''doc-1'' KnowledgeBaseDocument ''org-1''
               ''2024-02-01T00:00:00.000Z'' ''knowledge_base_document'' Map.empty 2 0) ! 0
     = ''knowledge_base_document_doc-1_chunk1''
   \<and> chunk_ids (createChunkItems chunkText_spec ''  ab'' ''doc-1'' KnowledgeBaseDocument ''org-1''
               ''2024-02-01T00:00:00.000Z'' ''knowledge_base_document'' Map.empty 2 0) ! 0
     \<noteq> ''knowledge_base_document'' @ ''_'' @ ''doc-1'' @ ''_chunk'' @ string_of_nat 0"
proof -
  have w: "chunk_windows ''  ab'' 2 0 = [''  '', ''ab'']"
    by (simp add: chunk_windows.simps[of "''  ab''"] chunk_windows.simps[of "''ab''"])
  have "createChunkItems chunkText_spec ''  ab'' ''doc-1'' KnowledgeBaseDocument ''org-1''
               ''2024-02-01T00:00:00.000Z'' ''knowledge_base_document'' Map.empty 2 0 =
        Inr [\<lparr>item_id = ''knowledge_base_document_doc-1_chunk1'', item_text = ''ab'',
              metadata = [''organizationId'' \<mapsto> ''org-1'',
                          ''sourceType'' \<mapsto> ''knowledge_base_document'',
                          ''sourceId'' \<mapsto> ''doc-1'', ''content'' \<mapsto> ''ab'',
                          ''updatedAt'' \<mapsto> ''2024-02-01T00:00:00.000Z'']\<rparr>]"
    by (simp add: createChunkItems_def chunkText_spec_def w has_text_iff blank_def
        is_white_space_def code_unit_def string_of_nat_1)
  then show ?thesis
    by (simp add: chunk_ids_def string_of_nat_0)
qed

text \<open>
  C3 (amended). The ids of the items that \<open>createChunkItems\<close> produces are the
  strings \<open>idPrefix_sourceId_chunk<j>\<close> for the indices \<open>j\<close>, in order, of the
  chunks that are not blank: each id is a function of the id prefix, the source
  id and the index of the chunk in the chunker's output, the ids are pairwise
  distinct, and when no chunk is blank the item at position \<open>i\<close> has the id
  with index \<open>i\<close>. The items of a knowledge-base document have the ids
  \<open>knowledge_base_document_<documentId>_chunk<j>\<close> in the same way.
\<close>

theorem createChunkItems_ids:
  assumes "chunkText' text chunkSize overlap = Inr chunks"
  shows "chunk_ids (createChunkItems chunkText' text sourceId sourceType org updatedAt idPrefix
                      extraMetadata chunkSize overlap) =
           map (\<lambda>j. idPrefix @ ''_'' @ sourceId @ ''_chunk'' @ string_of_nat j)
             (filter (\<lambda>j. \<not> blank (chunks ! j)) [0..<length chunks])
       \<and> distinct (chunk_ids (createChunkItems chunkText' text sourceId sourceType org updatedAt
                      idPrefix extraMetadata chunkSize overlap))
       \<and> ((\<forall>j < length chunks. \<not> blank (chunks ! j)) \<longrightarrow>
            (\<forall>i < length chunks.
               chunk_ids (createChunkItems chunkText' text sourceId sourceType org updatedAt idPrefix
                            extraMetadata chunkSize overlap) ! i =
               idPrefix @ ''_'' @ sourceId @ ''_chunk'' @ string_of_nat i))
       \<and> map item_id (kb_chunk_items p document_id d chunks) =
           map (\<lambda>j. ''knowledge_base_document_'' @ document_id @ ''_chunk'' @ string_of_nat j)
             (filter (\<lambda>j. \<not> blank (chunks ! j)) [0..<length chunks])"
proof -
  let ?ids = "chunk_ids (createChunkItems chunkText' text sourceId sourceType org updatedAt idPrefix
                      extraMetadata chunkSize overlap)"
  let ?f = "\<lambda>j. idPrefix @ ''_'' @ sourceId @ ''_chunk'' @ string_of_nat j"
  have ids: "?ids = map ?f (filter (\<lambda>j. \<not> blank (chunks ! j)) [0..<length chunks])"
    using assms by (simp add: chunk_ids_def createChunkItems_def chunk_items_ids)
  have "inj ?f"
    by (rule injI) (simp add: string_of_nat_inj)
  then have dist: "distinct ?ids"
    unfolding ids by (simp add: distinct_map inj_on_def inj_def)
  have all: "(\<forall>j < length chunks. \<not> blank (chunks ! j)) \<longrightarrow>
            (\<forall>i < length chunks. ?ids ! i = ?f i)"
    unfolding ids by (simp add: filter_upt_all)
  have kb: "map item_id (kb_chunk_items p document_id d chunks) =
           map (\<lambda>j. ''knowledge_base_document_'' @ document_id @ ''_chunk'' @ string_of_nat j)
             (filter (\<lambda>j. \<not> blank (chunks ! j)) [0..<length chunks])"
    by (simp add: kb_chunk_items_def Let_def chunk_items_ids)
  show ?thesis
    using ids dist all kb by blast
qed

theorem createChunkItems_ids_witness:
  "chunkText example_services ''Hello world. Hello again.'' 500 50 =
     Inr [''Hello world. '', ''Hello again.'']
   \<and> chunk_ids (createChunkItems (chunkText example_services) ''Hello world. Hello again.''
        ''doc-1'' KnowledgeBaseDocument ''org-1'' ''2024-02-01T00:00:00.000Z''
        ''knowledge_base_document'' [''documentName'' \<mapsto> ''handbook.txt''] 500 50) =
     [''knowledge_base_document_doc-1_chunk0'', ''knowledge_base_document_doc-1_chunk1'']
   \<and> map item_id (kb_chunk_items example_payload ''doc-1'' example_document
        [''Hello world. '', ''Hello again.'']) =
     [''knowledge_base_document_doc-1_chunk0'', ''knowledge_base_document_doc-1_chunk1'']"
proof -
  have c: "chunkText example_services ''Hello world. Hello again.'' 500 50 =
     Inr [''Hello world. '', ''Hello again.'']"
    by (simp add: example_services_fields)
  have u: "[0..<2] = [0, Suc 0]" by (simp add: upt_rec)
  show ?thesis
    using c createChunkItems_ids[of "chunkText example_services"
        "''Hello world. Hello again.''" 500 50 "[''Hello world. '', ''Hello again.'']"
        "''doc-1''" KnowledgeBaseDocument "''org-1''" "''2024-02-01T00:00:00.000Z''"
        "''knowledge_base_document''" "[''documentName'' \<mapsto> ''handbook.txt'']"
        example_payload "''doc-1''" example_document]
    by (simp add: u blank_def is_white_space_def code_unit_def string_of_nat_0 string_of_nat_1)
qed


section \<open>A document that is not found\<close>

text \<open>
  C4. When no document with the payload's id exists, or the document with that
  id belongs to another organization, the run returns the failure value with
  the error \<open>Document not found\<close>, makes no call to object storage or to the
  vector index, and leaves the documents as they were. The outcome is the same
  expression in both cases: nothing tells a foreign document from a missing one.
\<close>

theorem run_document_not_found:
  assumes "documents w (documentId p) = None \<or>
           (\<exists>d. documents w (documentId p) = Some d \<and> doc_organizationId d \<noteq> organizationId p)"
  shows "run S p w =
           (Inr \<lparr>success = False, result_documentId = documentId p, chunkCount = None,
                 error = Some ''Document not found''\<rparr>,
            w\<lparr>logs := logs w @
               [(Info, ''Processing Knowledge Base document'',
                 [(''documentId'', documentId p), (''organizationId'', organizationId p)]),
                (Err, ''Document not found'',
                 [(''documentId'', documentId p), (''organizationId'', organizationId p)])]\<rparr>)
       \<and> new_calls S p w = []
       \<and> documents (snd (run S p w)) = documents w"
proof -
  have "owned_document w p = None"
    using assms by (auto simp: owned_document_def)
  then have "new_calls S p w = []" "documents (snd (run S p w)) = documents w"
    by (simp_all add: run_calls run_documents)
  moreover have "run S p w =
           (Inr \<lparr>success = False, result_documentId = documentId p, chunkCount = None,
                 error = Some ''Document not found''\<rparr>,
            w\<lparr>logs := logs w @
               [(Info, ''Processing Knowledge Base document'',
                 [(''documentId'', documentId p), (''organizationId'', organizationId p)]),
                (Err, ''Document not found'',
                 [(''documentId'', documentId p), (''organizationId'', organizationId p)])]\<rparr>)"
    using assms by (auto simp: run_def run_try_def db_findUnique_def action_defs)
  ultimately show ?thesis by blast
qed

theorem run_document_not_found_witness:
  "fst (run example_services \<lparr>documentId = ''doc-1'', organizationId = ''org-2''\<rparr> example_world) =
     Inr \<lparr>success = False, result_documentId = ''doc-1'', chunkCount = None,
          error = Some ''Document not found''\<rparr>
   \<and> new_calls example_services \<lparr>documentId = ''doc-1'', organizationId = ''org-2''\<rparr> example_world = []
   \<and> fst (run example_services \<lparr>documentId = ''doc-2'', organizationId = ''org-1''\<rparr> example_world) =
     Inr \<lparr>success = False, result_documentId = ''doc-2'', chunkCount = None,
          error = Some ''Document not found''\<rparr>
   \<and> new_calls example_services \<lparr>documentId = ''doc-2'', organizationId = ''org-1''\<rparr> example_world = []"
  using run_document_not_found
      [of example_world "\<lparr>documentId = ''doc-1'', organizationId = ''org-2''\<rparr>" example_services]
    run_document_not_found
      [of example_world "\<lparr>documentId = ''doc-2'', organizationId = ''org-1''\<rparr>" example_services]
  by (simp add: example_world_def example_document_def)


section \<open>Empty content\<close>

text \<open>
  C5. When the extraction yields an empty or white-space-only string, the run
  returns the failure value \<open>No content extracted from document\<close> (it does not
  throw), the document is marked \<open>failed\<close> with \<open>processedAt\<close> set, and the
  run makes no query, delete or upsert call to the vector index.
\<close>

theorem run_no_content:
  assumes "owned_document w p = Some d"
    and "extracted S d = Inr content"
    and "content = [] \<or> (\<forall>c \<in> set content. is_white_space c)"
  shows "fst (run S p w) =
           Inr \<lparr>success = False, result_documentId = documentId p, chunkCount = None,
                error = Some ''No content extracted from document''\<rparr>
       \<and> (\<exists>d'. documents (snd (run S p w)) (documentId p) = Some d' \<and>
                processingStatus d' = Failed \<and> processedAt d' = Some (now S))
       \<and> filter is_index_call (new_calls S p w) = []"
proof -
  have b: "blank content" using assms(3) by (auto simp: blank_def)
  have "try_outcome S p w = Inr \<lparr>success = False, result_documentId = documentId p, chunkCount = None,
                error = Some ''No content extracted from document''\<rparr>"
    using assms b by (simp add: try_outcome_def)
  then show ?thesis
    using assms(1,2) b
    by (simp add: run_fst run_documents run_calls succeeded_def mark_failed_def s3_calls_def
        is_index_call_def split: option.splits)
qed

theorem run_no_content_witness:
  "extracted (example_services\<lparr>extractContentFromFile := \<lambda>base64Data t. Inr ''   ''\<rparr>)
     example_document = Inr ''   ''
   \<and> fst (run (example_services\<lparr>extractContentFromFile := \<lambda>base64Data t. Inr ''   ''\<rparr>)
            example_payload example_world) =
       Inr \<lparr>success = False, result_documentId = ''doc-1'', chunkCount = None,
            error = Some ''No content extracted from document''\<rparr>
   \<and> filter is_index_call
        (new_calls (example_services\<lparr>extractContentFromFile := \<lambda>base64Data t. Inr ''   ''\<rparr>)
           example_payload example_world) = []"
proof -
  have e: "extracted (example_services\<lparr>extractContentFromFile := \<lambda>base64Data t. Inr ''   ''\<rparr>)
     example_document = Inr ''   ''"
    by (simp add: example_eval)
  have b: "\<forall>c \<in> set ''   ''. is_white_space c"
    by (simp add: is_white_space_def code_unit_def)
  show ?thesis
    using e b run_no_content[OF example_owned e]
    by (simp add: example_payload_fields)
qed


section \<open>Tenant metadata\<close>

text \<open>
  C9 (counterexample). \<open>extraMetadata\<close> is spread after the fixed fields, so an
  entry under the key \<open>organizationId\<close> replaces the organization of the run.
\<close>

theorem createChunkItems_metadata_counterexample:
  "chunk_metadata
     (createChunkItems chunkText_spec ''abc'' ''doc-1'' KnowledgeBaseDocument ''org-1''
        ''2024-02-01T00:00:00.000Z'' ''knowledge_base_document''
        [''organizationId'' \<mapsto> ''org-2''] 500 50)
     ''organizationId'' = [Some ''org-2'']"
proof -
  have w: "chunk_windows ''abc'' 500 50 = [''abc'']"
    by (simp add: chunk_windows.simps[of "''abc''"])
  show ?thesis
    by (simp add: chunk_metadata_def createChunkItems_def chunkText_spec_def w has_text_iff
        blank_def is_white_space_def code_unit_def)
qed

text \<open>
  C9 (amended). Each item produced by \<open>createChunkItems\<close> carries under the
  keys \<open>organizationId\<close>, \<open>sourceId\<close> and \<open>updatedAt\<close> the arguments of the
  call, unless \<open>extraMetadata\<close> has an entry under that key, which then takes
  its place. Every item that a run of the knowledge-base task hands to the
  upsert carries the payload's organization id, the document id and the
  document's \<open>updatedAt\<close> string.
\<close>

theorem createChunkItems_metadata:
  "(createChunkItems chunkText' content sourceId sourceType org updatedAt idPrefix extraMetadata
      chunkSize overlap = Inr items \<and> item \<in> set items \<longrightarrow>
      metadata item ''organizationId'' =
        (case extraMetadata ''organizationId'' of None \<Rightarrow> Some org | Some v \<Rightarrow> Some v)
      \<and> metadata item ''sourceId'' =
        (case extraMetadata ''sourceId'' of None \<Rightarrow> Some sourceId | Some v \<Rightarrow> Some v)
      \<and> metadata item ''updatedAt'' =
        (case extraMetadata ''updatedAt'' of None \<Rightarrow> Some updatedAt | Some v \<Rightarrow> Some v))
   \<and> (BatchUpsert upserted \<in> set (new_calls S p w) \<and> item' \<in> set upserted \<longrightarrow>
        (\<exists>d. owned_document w p = Some d
           \<and> metadata item' ''organizationId'' = Some (organizationId p)
           \<and> metadata item' ''sourceId'' = Some (documentId p)
           \<and> metadata item' ''updatedAt'' = Some (doc_updatedAt d)))"
proof -
  have a: "createChunkItems chunkText' content sourceId sourceType org updatedAt idPrefix
      extraMetadata chunkSize overlap = Inr items \<and> item \<in> set items \<longrightarrow>
      metadata item ''organizationId'' =
        (case extraMetadata ''organizationId'' of None \<Rightarrow> Some org | Some v \<Rightarrow> Some v)
      \<and> metadata item ''sourceId'' =
        (case extraMetadata ''sourceId'' of None \<Rightarrow> Some sourceId | Some v \<Rightarrow> Some v)
      \<and> metadata item ''updatedAt'' =
        (case extraMetadata ''updatedAt'' of None \<Rightarrow> Some updatedAt | Some v \<Rightarrow> Some v)"
    by (auto simp: createChunkItems_def map_add_def split: sum.splits option.splits)
  have b: "BatchUpsert upserted \<in> set (new_calls S p w) \<and> item' \<in> set upserted \<longrightarrow>
        (\<exists>d. owned_document w p = Some d
           \<and> metadata item' ''organizationId'' = Some (organizationId p)
           \<and> metadata item' ''sourceId'' = Some (documentId p)
           \<and> metadata item' ''updatedAt'' = Some (doc_updatedAt d))"
    using upsert_in_run[of upserted S p w] kb_chunk_items_metadata by blast
  show ?thesis using a b by blast
qed

theorem createChunkItems_metadata_witness:
  "createChunkItems chunkText_spec ''abc'' ''doc-1'' KnowledgeBaseDocument ''org-1''
     ''2024-02-01T00:00:00.000Z'' ''knowledge_base_document''
     [''documentName'' \<mapsto> ''handbook.txt''] 500 50 =
     Inr [\<lparr>item_id = ''knowledge_base_document_doc-1_chunk0'', item_text = ''abc'',
           metadata = [''organizationId'' \<mapsto> ''org-1'',
                       ''sourceType'' \<mapsto> ''knowledge_base_document'',
                       ''sourceId'' \<mapsto> ''doc-1'', ''content'' \<mapsto> ''abc'',
                       ''updatedAt'' \<mapsto> ''2024-02-01T00:00:00.000Z'']
                      ++ [''documentName'' \<mapsto> ''handbook.txt'']\<rparr>]
   \<and> ([''organizationId'' \<mapsto> ''org-1'',
        ''sourceType'' \<mapsto> ''knowledge_base_document'',
        ''sourceId'' \<mapsto> ''doc-1'', ''content'' \<mapsto> ''abc'',
        ''updatedAt'' \<mapsto> ''2024-02-01T00:00:00.000Z'']
       ++ [''documentName'' \<mapsto> ''handbook.txt'']) ''organizationId'' = Some ''org-1''
   \<and> BatchUpsert (kb_chunk_items example_payload ''doc-1'' example_document
                    [''Hello world. '', ''Hello again.''])
       \<in> set (new_calls example_services example_payload example_world)
   \<and> metadata (hd (kb_chunk_items example_payload ''doc-1'' example_document
                    [''Hello world. '', ''Hello again.''])) ''organizationId'' = Some ''org-1''
   \<and> metadata (hd (kb_chunk_items example_payload ''doc-1'' example_document
                    [''Hello world. '', ''Hello again.''])) ''updatedAt''
       = Some ''2024-02-01T00:00:00.000Z''"
proof -
  let ?X = "\<lparr>item_id = ''knowledge_base_document_doc-1_chunk0'', item_text = ''abc'',
           metadata = [''organizationId'' \<mapsto> ''org-1'',
                       ''sourceType'' \<mapsto> ''knowledge_base_document'',
                       ''sourceId'' \<mapsto> ''doc-1'', ''content'' \<mapsto> ''abc'',
                       ''updatedAt'' \<mapsto> ''2024-02-01T00:00:00.000Z'']
                      ++ [''documentName'' \<mapsto> ''handbook.txt'']\<rparr>"
  let ?I = "kb_chunk_items example_payload ''doc-1'' example_document
              [''Hello world. '', ''Hello again.'']"
  have w: "chunk_windows ''abc'' 500 50 = [''abc'']"
    by (simp add: chunk_windows.simps[of "''abc''"])
  have c: "createChunkItems chunkText_spec ''abc'' ''doc-1'' KnowledgeBaseDocument ''org-1''
     ''2024-02-01T00:00:00.000Z'' ''knowledge_base_document''
     [''documentName'' \<mapsto> ''handbook.txt''] 500 50 = Inr [?X]"
    by (simp add: createChunkItems_def chunkText_spec_def w has_text_iff blank_def
        is_white_space_def code_unit_def string_of_nat_0)
  have u: "BatchUpsert ?I \<in> set (new_calls example_services example_payload example_world)"
    by (simp add: run_calls example_eval)
  have h: "hd ?I \<in> set ?I"
    using example_items by simp
  show ?thesis
    using c u h
      createChunkItems_metadata[of chunkText_spec "''abc''" "''doc-1''" KnowledgeBaseDocument
        "''org-1''" "''2024-02-01T00:00:00.000Z''" "''knowledge_base_document''"
        "[''documentName'' \<mapsto> ''handbook.txt'']" 500 50 "[?X]" ?X
        ?I example_services example_payload example_world "hd ?I"]
    by (simp add: example_owned example_payload_fields example_document_fields)
qed


section \<open>Delete before upsert\<close>





section \<open>A failing delete\<close>

text \<open>
  C7. What a run returns, the calls it makes and the documents it leaves behind
  do not depend on what the delete of the vector index does: replacing the
  delete by any other behaviour, a throwing one included, changes none of
  them, so a failing delete neither aborts the run nor alters its result, and
  chunking and upsert follow as before. When the delete throws, the task
  catches the error and logs a warning with its message. \<open>deleteOldEmbeddings\<close>
  returns normally for every input; for the empty list it returns without any
  call; when its delete throws it has made the one call and logged the
  warning, whose context is the caller's context with the message under the
  key \<open>error\<close> (replacing an entry the caller had under that key).
\<close>

theorem delete_failure_swallowed:
  "fst (run (S\<lparr>vectorIndex_delete := g\<rparr>) p w) = fst (run S p w)
   \<and> new_calls (S\<lparr>vectorIndex_delete := g\<rparr>) p w = new_calls S p w
   \<and> documents (snd (run (S\<lparr>vectorIndex_delete := g\<rparr>) p w)) = documents (snd (run S p w))
   \<and> (es \<noteq> [] \<and> vectorIndex S \<and> vectorIndex_delete S (map emb_id es) = Some e \<longrightarrow>
        fst (delete_existing S i es w) = Inr ()
        \<and> calls (snd (delete_existing S i es w)) = calls w @ [VectorIndexDelete (map emb_id es)]
        \<and> logs (snd (delete_existing S i es w)) =
            logs w @ [(Warn, ''Failed to delete existing embeddings'',
                       [(''documentId'', i), (''error'', error_message e)])])
   \<and> fst (deleteOldEmbeddings S es ctx w) = Inr ()
   \<and> deleteOldEmbeddings S [] ctx w = (Inr (), w)
   \<and> (es \<noteq> [] \<and> vectorIndex S \<and> vectorIndex_delete S (map emb_id es) = Some e \<and>
       distinct (map fst ctx) \<longrightarrow>
        calls (snd (deleteOldEmbeddings S es ctx w)) = calls w @ [VectorIndexDelete (map emb_id es)]
        \<and> logs (snd (deleteOldEmbeddings S es ctx w)) =
            logs w @ [(Warn, ''Failed to delete old embeddings'',
                       spread_with ctx ''error'' (error_message e))]
        \<and> map_of (spread_with ctx ''error'' (error_message e)) =
            (map_of ctx)(''error'' \<mapsto> error_message e)
        \<and> distinct (map fst (spread_with ctx ''error'' (error_message e))))"
  using delete_existing_failure[of es S e i w] deleteOldEmbeddings_failure[of es S e ctx w]
    spread_with_map_of[of ctx "''error''" "error_message e"]
    spread_with_distinct[of ctx "''error''" "error_message e"]
  by (simp add: run_fst try_outcome_delete_irrelevant new_calls_delete_irrelevant
      documents_delete_irrelevant deleteOldEmbeddings_returns deleteOldEmbeddings_Nil)

theorem delete_failure_swallowed_witness:
  "vectorIndex_delete (example_services\<lparr>vectorIndex_delete := \<lambda>ids. Some (JsError ''index unavailable'')\<rparr>)
     (map emb_id example_existing) = Some (JsError ''index unavailable'')
   \<and> fst (run (example_services\<lparr>vectorIndex_delete := \<lambda>ids. Some (JsError ''index unavailable'')\<rparr>)
            example_payload example_world) =
       Inr \<lparr>success = True, result_documentId = ''doc-1'', chunkCount = Some 2, error = None\<rparr>
   \<and> new_calls (example_services\<lparr>vectorIndex_delete := \<lambda>ids. Some (JsError ''index unavailable'')\<rparr>)
        example_payload example_world =
       [S3GetObject ''kb-bucket'' ''org-1/handbook.txt'',
        FindEmbeddings ''doc-1'' KnowledgeBaseDocument ''org-1'',
        VectorIndexDelete (map emb_id example_existing),
        BatchUpsert (kb_chunk_items example_payload ''doc-1'' example_document
                       [''Hello world. '', ''Hello again.''])]
   \<and> logs (snd (deleteOldEmbeddings
                  (example_services\<lparr>vectorIndex_delete := \<lambda>ids. Some (JsError ''index unavailable'')\<rparr>)
                  example_existing [(''policyId'', ''pol-1'')] example_world)) =
       [(Warn, ''Failed to delete old embeddings'',
         [(''policyId'', ''pol-1''), (''error'', ''index unavailable'')])]
   \<and> logs (snd (deleteOldEmbeddings
                  (example_services\<lparr>vectorIndex_delete := \<lambda>ids. Some (JsError ''index unavailable'')\<rparr>)
                  example_existing [(''error'', ''earlier''), (''policyId'', ''pol-1'')]
                  example_world)) =
       [(Warn, ''Failed to delete old embeddings'',
         [(''error'', ''index unavailable''), (''policyId'', ''pol-1'')])]"
proof -
  let ?S = "example_services\<lparr>vectorIndex_delete := \<lambda>ids. Some (JsError ''index unavailable'')\<rparr>"
  have l: "length (kb_chunk_items example_payload ''doc-1'' example_document
                       [''Hello world. '', ''Hello again.'']) = 2"
    by (simp add: kb_chunk_items_def Let_def has_text_iff blank_def is_white_space_def code_unit_def)
  have r: "fst (run example_services example_payload example_world) =
       Inr \<lparr>success = True, result_documentId = ''doc-1'', chunkCount = Some 2, error = None\<rparr>"
    using l by (simp add: run_fst try_outcome_def embed_outcome_def example_eval)
  have c: "new_calls example_services example_payload example_world =
       [S3GetObject ''kb-bucket'' ''org-1/handbook.txt'',
        FindEmbeddings ''doc-1'' KnowledgeBaseDocument ''org-1'',
        VectorIndexDelete (map emb_id example_existing),
        BatchUpsert (kb_chunk_items example_payload ''doc-1'' example_document
                       [''Hello world. '', ''Hello again.''])]"
    by (simp add: run_calls example_eval) (simp add: example_existing_def)
  have e: "example_existing \<noteq> []" by (simp add: example_existing_def)
  show ?thesis
    using r c e
      delete_failure_swallowed[of "\<lambda>ids. Some (JsError ''index unavailable'')" example_services
        example_payload example_world example_existing "JsError ''index unavailable''"
        "''doc-1''" "[(''policyId'', ''pol-1'')]"]
      delete_failure_swallowed[of "\<lambda>ids. Some (JsError ''index unavailable'')" ?S
        example_payload example_world example_existing "JsError ''index unavailable''"
        "''doc-1''" "[(''policyId'', ''pol-1'')]"]
      delete_failure_swallowed[of "\<lambda>ids. Some (JsError ''index unavailable'')" ?S
        example_payload example_world example_existing "JsError ''index unavailable''"
        "''doc-1''" "[(''error'', ''earlier''), (''policyId'', ''pol-1'')]"]
    by (simp add: example_services_fields example_world_def error_message_def)
qed


section \<open>A failing upsert or storage read\<close>





section \<open>Keys without path traversal\<close>

text \<open>
  C10. Whenever \<open>extractS3KeyFromUrl\<close> (in either variant) returns a key, the
  key is not empty and contains neither \<open>../\<close> nor two dots followed by a
  backslash; this holds for
  every behaviour of the URL parser, of \<open>decodeURIComponent\<close> and of the two
  regular expressions. On the empty string both variants throw, and they throw
  whenever the derived key (the decoded path of a URL without its first
  character, or the input without its leading slash) contains one of these
  two patterns.
\<close>

theorem extractS3KeyFromUrl_safe:
  "(extractS3KeyFromUrl P url = Inr key \<or> extractS3KeyFromUrl_app P url = Inr key \<longrightarrow>
      key \<noteq> [] \<and> \<not> str_includes key ''../'' \<and> \<not> str_includes key dot_dot_backslash)
   \<and> isl (extractS3KeyFromUrl P []) \<and> isl (extractS3KeyFromUrl_app P [])
   \<and> (URL_parse P url = None \<and>
       (str_includes (if startsWith url ''/'' then substring1 url else url) ''../'' \<or>
        str_includes (if startsWith url ''/'' then substring1 url else url) dot_dot_backslash) \<longrightarrow>
       isl (extractS3KeyFromUrl P url) \<and> isl (extractS3KeyFromUrl_app P url))
   \<and> (URL_parse P url = Some (host, pathname) \<and>
       decodeURIComponent P (substring1 pathname) = Inr decoded \<and>
       (str_includes decoded ''../'' \<or> str_includes decoded dot_dot_backslash) \<longrightarrow>
       isl (extractS3KeyFromUrl P url) \<and> isl (extractS3KeyFromUrl_app P url))"
proof -
  have a: "extractS3KeyFromUrl P url = Inr key \<Longrightarrow>
      key \<noteq> [] \<and> \<not> str_includes key dot_dot_slash \<and> \<not> str_includes key dot_dot_backslash"
    by (auto simp: extractS3KeyFromUrl_def Let_def
        dest: key_of_parsed_url_safe includes_substring1 split: if_splits option.splits)
  have b: "extractS3KeyFromUrl_app P url = Inr key \<Longrightarrow>
      key \<noteq> [] \<and> \<not> str_includes key dot_dot_slash \<and> \<not> str_includes key dot_dot_backslash"
    by (auto simp: extractS3KeyFromUrl_app_def Let_def
        dest: key_of_parsed_url_safe includes_substring1 split: if_splits option.splits)
  have c: "isl (extractS3KeyFromUrl P []) \<and> isl (extractS3KeyFromUrl_app P [])"
    by (simp add: extractS3KeyFromUrl_def extractS3KeyFromUrl_app_def)
  have d: "URL_parse P url = None \<and>
       (str_includes (if startsWith url ''/'' then substring1 url else url) dot_dot_slash \<or>
        str_includes (if startsWith url ''/'' then substring1 url else url) dot_dot_backslash) \<longrightarrow>
       isl (extractS3KeyFromUrl P url) \<and> isl (extractS3KeyFromUrl_app P url)"
    using derived_key_includes[of url dot_dot_slash] derived_key_includes[of url dot_dot_backslash]
    by (auto simp: extractS3KeyFromUrl_def extractS3KeyFromUrl_app_def Let_def)
  have e: "URL_parse P url = Some (host, pathname) \<and>
       decodeURIComponent P (substring1 pathname) = Inr decoded \<and>
       (str_includes decoded dot_dot_slash \<or> str_includes decoded dot_dot_backslash) \<longrightarrow>
       isl (extractS3KeyFromUrl P url) \<and> isl (extractS3KeyFromUrl_app P url)"
    by (auto simp: extractS3KeyFromUrl_def extractS3KeyFromUrl_app_def key_of_parsed_url_def)
  show ?thesis
    using a b c d e unfolding dot_dot_slash_def by blast
qed

theorem extractS3KeyFromUrl_safe_witness:
  "extractS3KeyFromUrl example_platform ''/docs/a.pdf'' = Inr ''docs/a.pdf''
   \<and> extractS3KeyFromUrl_app example_platform ''https://kb.s3.amazonaws.com/docs/a.pdf''
       = Inr ''docs/a.pdf''
   \<and> \<not> str_includes ''docs/a.pdf'' ''../''
   \<and> str_includes ''docs/../secret'' ''../''
   \<and> isl (extractS3KeyFromUrl example_platform ''/docs/../secret'')
   \<and> isl (extractS3KeyFromUrl_app example_platform ''/docs/../secret'')"
proof -
  have k1: "extractS3KeyFromUrl example_platform ''/docs/a.pdf'' = Inr ''docs/a.pdf''"
    by (simp add: extractS3KeyFromUrl_def example_platform_def Let_def toLowerCase_def
        lower_char_def upper_chars_def lower_chars_def dot_dot_slash_def dot_dot_backslash_def
        substring1_def)
  have k2: "extractS3KeyFromUrl_app example_platform ''https://kb.s3.amazonaws.com/docs/a.pdf''
       = Inr ''docs/a.pdf''"
    by (simp add: extractS3KeyFromUrl_app_def key_of_parsed_url_def isValidS3Host_def
        endsWith_def example_platform_def Let_def toLowerCase_def
        lower_char_def upper_chars_def lower_chars_def dot_dot_slash_def dot_dot_backslash_def
        substring1_def)
  have p: "URL_parse example_platform ''/docs/../secret'' = None"
    by (simp add: example_platform_def)
  have i: "str_includes (if startsWith ''/docs/../secret'' ''/'' then substring1 ''/docs/../secret''
                          else ''/docs/../secret'') ''../''"
    by (simp add: substring1_def)
  show ?thesis
    using k1 k2 p i
      extractS3KeyFromUrl_safe[of example_platform "''/docs/a.pdf''" "''docs/a.pdf''"]
      extractS3KeyFromUrl_safe[of example_platform "''/docs/../secret''"]
    by simp
qed

end
